theory Spec2Isabelle
  imports Complex_Main "HOL-Library.Word" "HOL-Library.Monad_Syntax"
begin

section \<open>Conventions of the embedding\<close>

text \<open>
  The simulation core of the repository (terrain height field, capsule physics, capture
  state machine, inventory manager) is embedded function by function.  The C++ type
  \<^verbatim>\<open>float\<close> is modelled by \<^typ>\<open>real\<close>: the arithmetic is exact, so rounding of
  IEEE single precision is outside the model.  \<^verbatim>\<open>int\<close> is \<^typ>\<open>int\<close>, \<^verbatim>\<open>size_t\<close> is
  \<^typ>\<open>nat\<close>, \<^verbatim>\<open>uint32_t\<close> is \<^typ>\<open>32 word\<close>.  A read of a \<^verbatim>\<open>std::vector\<close> outside its
  bounds (undefined behaviour in C++) is the value \<^const>\<open>None\<close>.  Rendering data (models,
  textures, colours, the facing angle) is left out.
\<close>

subsection \<open>\<^verbatim>\<open>glm::vec3\<close> and the glm functions the core uses\<close>

datatype vec3 = Vec3 (vx: real) (vy: real) (vz: real)

definition vadd :: "vec3 \<Rightarrow> vec3 \<Rightarrow> vec3" where
  "vadd a b = Vec3 (vx a + vx b) (vy a + vy b) (vz a + vz b)"

definition vsub :: "vec3 \<Rightarrow> vec3 \<Rightarrow> vec3" where
  "vsub a b = Vec3 (vx a - vx b) (vy a - vy b) (vz a - vz b)"

definition vmul :: "vec3 \<Rightarrow> vec3 \<Rightarrow> vec3" where
  "vmul a b = Vec3 (vx a * vx b) (vy a * vy b) (vz a * vz b)"

definition smul :: "vec3 \<Rightarrow> real \<Rightarrow> vec3" where
  "smul a k = Vec3 (vx a * k) (vy a * k) (vz a * k)"

definition sdiv :: "vec3 \<Rightarrow> real \<Rightarrow> vec3" where
  "sdiv a k = Vec3 (vx a / k) (vy a / k) (vz a / k)"

definition dot :: "vec3 \<Rightarrow> vec3 \<Rightarrow> real" where
  "dot a b = vx a * vx b + vy a * vy b + vz a * vz b"

definition length2 :: "vec3 \<Rightarrow> real" where
  "length2 a = dot a a"

definition vlength :: "vec3 \<Rightarrow> real" where
  "vlength a = sqrt (dot a a)"

definition normalize :: "vec3 \<Rightarrow> vec3" where
  "normalize a = sdiv a (sqrt (dot a a))"

text \<open>\<^verbatim>\<open>glm::reflect(I, N) = I - N * dot(N, I) * 2\<close>.\<close>

definition reflect :: "vec3 \<Rightarrow> vec3 \<Rightarrow> vec3" where
  "reflect i n = vsub i (smul (smul n (dot n i)) 2)"

text \<open>\<^verbatim>\<open>std::clamp(v, lo, hi) = (v < lo) ? lo : (hi < v) ? hi : v\<close>; \<^verbatim>\<open>glm::clamp\<close> is
  \<^verbatim>\<open>min(max(x, lo), hi)\<close>; \<^verbatim>\<open>glm::min(a, b) = (b < a) ? b : a\<close>.\<close>

definition std_clamp :: "'a::linorder \<Rightarrow> 'a \<Rightarrow> 'a \<Rightarrow> 'a" where
  "std_clamp v lo hi = (if v < lo then lo else if hi < v then hi else v)"

definition glm_clamp :: "real \<Rightarrow> real \<Rightarrow> real \<Rightarrow> real" where
  "glm_clamp x lo hi = min (max x lo) hi"

definition glm_min :: "real \<Rightarrow> real \<Rightarrow> real" where
  "glm_min a b = (if b < a then b else a)"

section \<open>Terrain height field (World.cpp)\<close>

record World =
  heights :: "real list"
  imgW :: int
  imgH :: int
  cellSize :: real
  halfWm :: real
  halfZm :: real

text \<open>The state after \<^verbatim>\<open>World::World()\<close>: no samples, the member initialisers of World.h.\<close>

definition World_new :: World where
  "World_new = \<lparr> heights = [], imgW = 0, imgH = 0, cellSize = 1, halfWm = 0, halfZm = 0 \<rparr>"

definition idx :: "World \<Rightarrow> int \<Rightarrow> int \<Rightarrow> int" where
  "idx w i j = j * imgW w + i"

text \<open>An image as \<^verbatim>\<open>stbi_load\<close> returns it with one channel: width, height and
  \<^verbatim>\<open>width * height\<close> bytes.\<close>

record Image =
  wpx :: int
  hpx :: int
  pixels :: "8 word list"

text \<open>\<^verbatim>\<open>World::FromHeightMap\<close>, the part that fills the height field; \<^const>\<open>None\<close> is
  the null pointer of a failed load, which leaves the default-constructed world.\<close>

definition FromHeightMap :: "Image option \<Rightarrow> real \<Rightarrow> real \<Rightarrow> World" where
  "FromHeightMap img cs heightScale =
     (case img of
        None \<Rightarrow> World_new
      | Some d \<Rightarrow>
          \<lparr> heights = map (\<lambda>k. (real (unat (pixels d ! k)) / 255) * heightScale)
                          [0 ..< nat (wpx d * hpx d)],
            imgW = wpx d, imgH = hpx d, cellSize = cs,
            halfWm = (real_of_int (wpx d - 1) * cs) * 0.5,
            halfZm = (real_of_int (hpx d - 1) * cs) * 0.5 \<rparr>)"

text \<open>The lambda \<^verbatim>\<open>Hc\<close> of \<^verbatim>\<open>heightAt\<close>: clamp the indices, read the sample.\<close>

definition Hc :: "World \<Rightarrow> int \<Rightarrow> int \<Rightarrow> real option" where
  "Hc w ii jj =
     (let ii' = std_clamp ii 0 (imgW w - 1);
          jj' = std_clamp jj 0 (imgH w - 1);
          k = idx w ii' jj'
      in if 0 \<le> k \<and> k < int (length (heights w)) then Some (heights w ! nat k) else None)"

definition heightAt :: "World \<Rightarrow> real \<Rightarrow> real \<Rightarrow> real option" where
  "heightAt w x z =
     (if imgW w \<le> 1 \<or> imgH w \<le> 1 then Some 0
      else
        let W = real_of_int (imgW w - 1);
            H = real_of_int (imgH w - 1);
            u = std_clamp ((x + halfWm w) / cellSize w) 0 W;
            v = std_clamp ((z + halfZm w) / cellSize w) 0 H;
            i = \<lfloor>u\<rfloor>;
            j = \<lfloor>v\<rfloor>;
            tx = u - real_of_int i;
            tz = v - real_of_int j
        in do {
             h00 \<leftarrow> Hc w i j;
             h10 \<leftarrow> Hc w (i + 1) j;
             h01 \<leftarrow> Hc w i (j + 1);
             h11 \<leftarrow> Hc w (i + 1) (j + 1);
             let h0 = (1 - tx) * h00 + tx * h10;
             let h1 = (1 - tx) * h01 + tx * h11;
             Some ((1 - tz) * h0 + tz * h1)
           })"

definition normalAt :: "World \<Rightarrow> real \<Rightarrow> real \<Rightarrow> vec3 option" where
  "normalAt w x z =
     (let eps = cellSize w
      in do {
           hL \<leftarrow> heightAt w (x - eps) z;
           hR \<leftarrow> heightAt w (x + eps) z;
           hD \<leftarrow> heightAt w x (z - eps);
           hU \<leftarrow> heightAt w x (z + eps);
           let hx = (hR - hL) / (2 * eps);
           let hz = (hU - hD) / (2 * eps);
           Some (normalize (Vec3 (- hx) 1 (- hz)))
         })"


section \<open>Capsules and creatures (Pokeball.h, Pokemon.h, Pokemon.cpp)\<close>

record Pokeball =
  position :: vec3
  velocity :: vec3
  radius :: real
  active :: bool
  grounded :: bool
  life :: real
  locked :: bool
  lockTimer :: real
  shakeCount :: int
  shakePhase :: real
  captureBasePos :: vec3
  captureSuccess :: bool
  targetPokemonId :: int

text \<open>The member initialisers of \<^verbatim>\<open>struct Pokeball\<close>.\<close>

definition Pokeball_new :: Pokeball where
  "Pokeball_new =
     \<lparr> position = Vec3 0 0 0, velocity = Vec3 0 0 0, radius = 0.3, active = True,
       grounded = False, life = 10, locked = False, lockTimer = 0, shakeCount = 0,
       shakePhase = 0, captureBasePos = Vec3 0 0 0, captureSuccess = False,
       targetPokemonId = - 1 \<rparr>"

datatype PokemonState = Idle | Walking | Capturing | Captured | CaptureFailed

record PokemonSpecies =
  name :: string
  displayScale :: real
  catchRate :: real

text \<open>The members of \<^verbatim>\<open>class Pokemon\<close> (\<^verbatim>\<open>id_\<close>, \<^verbatim>\<open>species_\<close>, \<^verbatim>\<open>position_\<close>, ...);
  the trailing underscore of the source is written \<open>_p\<close>.  \<^verbatim>\<open>species_\<close> is a pointer
  that may be null.\<close>

record Pokemon =
  id_p :: int
  species_p :: "PokemonSpecies option"
  position_p :: vec3
  velocity_p :: vec3
  wanderDir_p :: vec3
  speed_p :: real
  radius_p :: real
  visible_p :: bool
  state_p :: PokemonState
  timeUntilDirectionChange_p :: real
  captureTimer_p :: real

text \<open>The C library's random number generator is global state: the sequence of values
  that \<^verbatim>\<open>randomFloat()\<close> (\<^verbatim>\<open>rand() / RAND_MAX\<close>) is going to return, and how many have
  been drawn.\<close>

type_synonym rand_state = "(nat \<Rightarrow> real) \<times> nat"

definition randomFloat :: "rand_state \<Rightarrow> real \<times> rand_state" where
  "randomFloat g = (fst g (snd g), (fst g, Suc (snd g)))"

definition pickNewWanderDirection :: "Pokemon \<Rightarrow> rand_state \<Rightarrow> Pokemon \<times> rand_state" where
  "pickNewWanderDirection p g =
     (let (r1, g1) = randomFloat g;
          angle = r1 * 6.2831853;
          wd = normalize (Vec3 (cos angle) 0 (sin angle));
          (r2, g2) = randomFloat g1
      in (p\<lparr> wanderDir_p := wd, velocity_p := smul wd (speed_p p),
              timeUntilDirectionChange_p := 1 + 2 * r2, state_p := Walking \<rparr>, g2))"

text \<open>The constructor \<^verbatim>\<open>Pokemon::Pokemon\<close>.\<close>

definition Pokemon_new ::
  "PokemonSpecies option \<Rightarrow> vec3 \<Rightarrow> real \<Rightarrow> real \<Rightarrow> int \<Rightarrow> rand_state \<Rightarrow> Pokemon \<times> rand_state" where
  "Pokemon_new species startPos moveSpeed collisionRadius ident g =
     pickNewWanderDirection
       \<lparr> id_p = ident, species_p = species, position_p = startPos, velocity_p = Vec3 0 0 0,
         wanderDir_p = Vec3 0 0 0, speed_p = moveSpeed, radius_p = collisionRadius,
         visible_p = True, state_p = Idle, timeUntilDirectionChange_p = 0,
         captureTimer_p = 0 \<rparr> g"

definition getCatchRate :: "Pokemon \<Rightarrow> real" where
  "getCatchRate p = (case species_p p of Some s \<Rightarrow> catchRate s | None \<Rightarrow> 0.5)"

definition isCapturing :: "Pokemon \<Rightarrow> bool" where
  "isCapturing p = (state_p p = Capturing)"

definition isCaptured :: "Pokemon \<Rightarrow> bool" where
  "isCaptured p = (state_p p = Captured)"

definition captureFailed :: "Pokemon \<Rightarrow> bool" where
  "captureFailed p = (state_p p = CaptureFailed)"

definition startCapture :: "Pokemon \<Rightarrow> Pokemon" where
  "startCapture p = p\<lparr> state_p := Capturing, captureTimer_p := 0, velocity_p := Vec3 0 0 0 \<rparr>"

definition markCaptured :: "Pokemon \<Rightarrow> Pokemon" where
  "markCaptured p = p\<lparr> state_p := Captured, visible_p := False \<rparr>"

definition markCaptureFailed :: "Pokemon \<Rightarrow> Pokemon" where
  "markCaptureFailed p = p\<lparr> state_p := CaptureFailed, visible_p := True \<rparr>"

text \<open>The obstacle loop of \<^verbatim>\<open>Pokemon::update\<close>: is some obstacle centre, in the
  horizontal plane, closer to the next position than \<^verbatim>\<open>radius_ + 0.7\<close>.\<close>

definition obstacleAhead :: "vec3 \<Rightarrow> real \<Rightarrow> vec3 list \<Rightarrow> bool" where
  "obstacleAhead nextPos r obstacles =
     list_ex (\<lambda>ob. sqrt ((vx ob - vx nextPos) * (vx ob - vx nextPos)
                        + (vz ob - vz nextPos) * (vz ob - vz nextPos)) < r + 0.7) obstacles"

text \<open>\<^verbatim>\<open>Pokemon::update\<close>, without the facing angle.\<close>

definition Pokemon_update ::
  "Pokemon \<Rightarrow> real \<Rightarrow> World option \<Rightarrow> vec3 list \<Rightarrow> rand_state \<Rightarrow> (Pokemon \<times> rand_state) option" where
  "Pokemon_update p dt world obstacles g =
     (if state_p p = Captured then Some (p, g)
      else if state_p p = CaptureFailed then
        (let (p1, g1) = pickNewWanderDirection p g
         in Some (p1\<lparr> visible_p := True, state_p := Idle \<rparr>, g1))
      else if state_p p = Capturing then
        Some (p\<lparr> captureTimer_p := captureTimer_p p + dt \<rparr>, g)
      else
        let nextPos = vadd (position_p p) (smul (velocity_p p) dt);
            (p1, g1) = (if obstacleAhead nextPos (radius_p p) obstacles
                        then pickNewWanderDirection p g
                        else (p\<lparr> position_p := nextPos \<rparr>, g))
        in do {
             p2 \<leftarrow> (case world of
                      None \<Rightarrow> Some p1
                    | Some w \<Rightarrow> do {
                        h \<leftarrow> heightAt w (vx (position_p p1)) (vz (position_p p1));
                        Some (p1\<lparr> position_p := Vec3 (vx (position_p p1)) h (vz (position_p p1)) \<rparr>)
                      });
             let p3 = p2\<lparr> timeUntilDirectionChange_p := timeUntilDirectionChange_p p2 - dt \<rparr>;
             Some (if timeUntilDirectionChange_p p3 \<le> 0
                   then pickNewWanderDirection p3 g1 else (p3, g1))
           })"

section \<open>Roster and inventory (PokemonController.cpp)\<close>

record Controller =
  pokemon_c :: "Pokemon list"
  inventory_c :: "Pokemon list"
  outPokemonIndices_c :: "nat list"
  nextPokemonId_c :: int

definition Controller_new :: Controller where
  "Controller_new =
     \<lparr> pokemon_c = [], inventory_c = [], outPokemonIndices_c = [], nextPokemonId_c = 1 \<rparr>"

definition collide :: "vec3 \<Rightarrow> real \<Rightarrow> vec3 \<Rightarrow> real \<Rightarrow> bool" where
  "collide p1 r1 p2 r2 = (let rsum = r1 + r2; dist2 = length2 (vsub p1 p2)
                          in dist2 \<le> rsum * rsum)"

definition spawnPokemon ::
  "Controller \<Rightarrow> PokemonSpecies option \<Rightarrow> vec3 \<Rightarrow> real \<Rightarrow> real \<Rightarrow> int \<Rightarrow> rand_state
     \<Rightarrow> Controller \<times> rand_state" where
  "spawnPokemon c species ps speed rad ident g =
     (let (actualId, c1) = (if ident = 0
                            then (nextPokemonId_c c, c\<lparr> nextPokemonId_c := nextPokemonId_c c + 1 \<rparr>)
                            else (ident, c));
          (p, g1) = Pokemon_new species ps speed rad actualId g
      in (c1\<lparr> pokemon_c := pokemon_c c1 @ [p] \<rparr>, g1))"

text \<open>The loop of \<^verbatim>\<open>updateAll\<close> over the roster.\<close>

fun updateEach ::
  "Pokemon list \<Rightarrow> real \<Rightarrow> World option \<Rightarrow> vec3 list \<Rightarrow> rand_state
     \<Rightarrow> (Pokemon list \<times> rand_state) option" where
  "updateEach [] dt world obstacles g = Some ([], g)"
| "updateEach (p # ps) dt world obstacles g =
     (case Pokemon_update p dt world obstacles g of
        None \<Rightarrow> None
      | Some (p', g1) \<Rightarrow>
          (case updateEach ps dt world obstacles g1 of
             None \<Rightarrow> None
           | Some (ps', g2) \<Rightarrow> Some (p' # ps', g2)))"

definition updateAll ::
  "Controller \<Rightarrow> real \<Rightarrow> World option \<Rightarrow> vec3 list \<Rightarrow> rand_state
     \<Rightarrow> (Controller \<times> rand_state) option" where
  "updateAll c dt world obstacles g =
     (case updateEach (pokemon_c c) dt world obstacles g of
        None \<Rightarrow> None
      | Some (ps, g1) \<Rightarrow> Some (c\<lparr> pokemon_c := ps \<rparr>, g1))"

definition isPokemonOut :: "Controller \<Rightarrow> nat \<Rightarrow> bool" where
  "isPokemonOut c inventoryIndex = (inventoryIndex \<in> set (outPokemonIndices_c c))"

definition hasAnyPokemonOut :: "Controller \<Rightarrow> bool" where
  "hasAnyPokemonOut c = (outPokemonIndices_c c \<noteq> [])"

text \<open>\<^verbatim>\<open>isOwnedPokemon\<close> reads the inventory and the side table only.\<close>

definition isOwned :: "Pokemon list \<Rightarrow> nat list \<Rightarrow> Pokemon \<Rightarrow> bool" where
  "isOwned invt outs p =
     (if outs = [] then False
      else list_ex (\<lambda>outIdx. outIdx < length invt \<and> id_p p = id_p (invt ! outIdx)) outs)"

definition isOwnedPokemon :: "Controller \<Rightarrow> Pokemon \<Rightarrow> bool" where
  "isOwnedPokemon c p = isOwned (inventory_c c) (outPokemonIndices_c c) p"


text \<open>The body of the collision branch of \<^verbatim>\<open>handlePokeballCapture\<close>: the creature
  enters Capturing and is hidden, the capsule locks and snaps onto it, one random sample
  decides the outcome.\<close>

definition captureHit :: "Pokemon \<Rightarrow> Pokeball \<Rightarrow> rand_state \<Rightarrow> Pokemon \<times> Pokeball \<times> rand_state" where
  "captureHit p ball g =
     (let p1 = (startCapture p)\<lparr> visible_p := False \<rparr>;
          b1 = ball\<lparr> active := False, locked := True, lockTimer := 0,
                     velocity := Vec3 0 0 0, targetPokemonId := id_p p1 \<rparr>;
          b2 = b1\<lparr> position := vadd (position_p p1) (Vec3 0 (radius_p p1) 0) \<rparr>;
          rate = getCatchRate p1;
          (roll, g1) = randomFloat g;
          success = (roll \<le> rate)
      in (p1, b2\<lparr> captureSuccess := success \<rparr>, g1))"

text \<open>The inner loop over the capsules, for one creature; it stops at the first hit.\<close>

fun hitBalls :: "Pokemon \<Rightarrow> Pokeball list \<Rightarrow> rand_state \<Rightarrow> Pokemon \<times> Pokeball list \<times> rand_state" where
  "hitBalls p [] g = (p, [], g)"
| "hitBalls p (ball # bs) g =
     (if locked ball then (let (p', bs', g') = hitBalls p bs g in (p', ball # bs', g'))
      else if targetPokemonId ball = id_p p then
        (let (p', bs', g') = hitBalls p bs g in (p', ball # bs', g'))
      else if collide (position ball) (radius ball) (position_p p) (radius_p p) then
        (let (p', ball', g') = captureHit p ball g in (p', ball' # bs, g'))
      else (let (p', bs', g') = hitBalls p bs g in (p', ball # bs', g')))"

text \<open>The outer loop over the roster.\<close>

fun captureLoop ::
  "Pokemon list \<Rightarrow> nat list \<Rightarrow> Pokemon list \<Rightarrow> Pokeball list \<Rightarrow> rand_state
     \<Rightarrow> Pokemon list \<times> Pokeball list \<times> rand_state" where
  "captureLoop invt outs [] balls g = ([], balls, g)"
| "captureLoop invt outs (p # ps) balls g =
     (if isCaptured p \<or> isCapturing p then
        (let (ps', balls', g') = captureLoop invt outs ps balls g in (p # ps', balls', g'))
      else if captureFailed p then
        (let (ps', balls', g') = captureLoop invt outs ps balls g in (p # ps', balls', g'))
      else if isOwned invt outs p then
        (let (ps', balls', g') = captureLoop invt outs ps balls g in (p # ps', balls', g'))
      else
        (let (p1, balls1, g1) = hitBalls p balls g;
             (ps', balls', g') = captureLoop invt outs ps balls1 g1
         in (p1 # ps', balls', g')))"

definition handlePokeballCapture ::
  "Controller \<Rightarrow> Pokeball list \<Rightarrow> rand_state \<Rightarrow> Controller \<times> Pokeball list \<times> rand_state" where
  "handlePokeballCapture c pokeballs g =
     (let (ps, balls, g1) =
            captureLoop (inventory_c c) (outPokemonIndices_c c) (pokemon_c c) pokeballs g
      in (c\<lparr> pokemon_c := ps \<rparr>, balls, g1))"

text \<open>The loop of \<^verbatim>\<open>updateInventory\<close>: the remaining roster and the grown inventory.\<close>

fun moveCaptured :: "Pokemon list \<Rightarrow> Pokemon list \<Rightarrow> nat list \<Rightarrow> Pokemon list \<times> Pokemon list" where
  "moveCaptured [] invt outs = ([], invt)"
| "moveCaptured (p # ps) invt outs =
     (if isCaptured p \<and> \<not> visible_p p then
        (if \<not> isOwned invt outs p then moveCaptured ps (invt @ [p]) outs
         else (let (ps', invt') = moveCaptured ps invt outs in (p # ps', invt')))
      else (let (ps', invt') = moveCaptured ps invt outs in (p # ps', invt')))"

definition updateInventory :: "Controller \<Rightarrow> Controller" where
  "updateInventory c =
     (let (ps, invt) = moveCaptured (pokemon_c c) (inventory_c c) (outPokemonIndices_c c)
      in c\<lparr> pokemon_c := ps, inventory_c := invt \<rparr>)"

definition sendOutPokemon :: "Controller \<Rightarrow> nat \<Rightarrow> vec3 \<Rightarrow> bool \<times> Controller" where
  "sendOutPokemon c inventoryIndex ps =
     (if inventoryIndex \<ge> length (inventory_c c) then (False, c)
      else if hasAnyPokemonOut c then (False, c)
      else if isPokemonOut c inventoryIndex then (False, c)
      else
        let sentOut = (inventory_c c ! inventoryIndex)
                        \<lparr> position_p := ps, state_p := Idle, visible_p := True \<rparr>
        in (True, c\<lparr> pokemon_c := pokemon_c c @ [sentOut],
                     outPokemonIndices_c := outPokemonIndices_c c @ [inventoryIndex] \<rparr>))"

text \<open>The reverse search of \<^verbatim>\<open>recallPokemon\<close>: erase the last element that satisfies
  the test; \<^const>\<open>None\<close> when there is none.\<close>

fun eraseLast :: "('a \<Rightarrow> bool) \<Rightarrow> 'a list \<Rightarrow> 'a list option" where
  "eraseLast P [] = None"
| "eraseLast P (x # xs) =
     (case eraseLast P xs of
        Some xs' \<Rightarrow> Some (x # xs')
      | None \<Rightarrow> if P x then Some xs else None)"

definition recallPokemon :: "Controller \<Rightarrow> nat \<Rightarrow> bool \<times> Controller" where
  "recallPokemon c inventoryIndex =
     (if inventoryIndex \<ge> length (inventory_c c) then (False, c)
      else if inventoryIndex \<notin> set (outPokemonIndices_c c) then (False, c)
      else
        let targetId = id_p (inventory_c c ! inventoryIndex)
        in case eraseLast (\<lambda>p. id_p p = targetId \<and> isOwnedPokemon c p) (pokemon_c c) of
             None \<Rightarrow> (False, c)
           | Some ps \<Rightarrow>
               (True, c\<lparr> pokemon_c := ps,
                        outPokemonIndices_c := remove1 inventoryIndex (outPokemonIndices_c c) \<rparr>))"

section \<open>Capsule physics and the frame (Constants.h, App.cpp)\<close>

definition BOUNCE_FRICTION :: real where "BOUNCE_FRICTION = 0.95"
definition GROUND_Y :: real where "GROUND_Y = - 0.5"
definition PHYSICS_TIMESTEP :: real where "PHYSICS_TIMESTEP = 1 / 120"
definition PROJECTILE_RADIUS :: real where "PROJECTILE_RADIUS = 0.2"
definition PROJECTILE_LIFETIME :: real where "PROJECTILE_LIFETIME = 15"
definition PROJECTILE_SPAWN_DISTANCE :: real where "PROJECTILE_SPAWN_DISTANCE = 1"
definition PROJECTILE_UPWARD_VELOCITY :: real where "PROJECTILE_UPWARD_VELOCITY = 2"
definition SHAKE_DURATION :: real where "SHAKE_DURATION = 0.6"
definition MAX_SHAKES :: int where "MAX_SHAKES = 3"

record Prop =
  pos :: vec3
  scale :: vec3
  aabbMinLocal :: vec3
  aabbMaxLocal :: vec3

text \<open>The simulation state of \<^verbatim>\<open>class App\<close>; \<open>acc_a\<close> is the static local \<^verbatim>\<open>acc\<close> of
  \<^verbatim>\<open>updateTiming\<close>, \<open>rand_a\<close> the random number generator.  \<^verbatim>\<open>App::init\<close> creates the
  controller before the first tick, so it is always present; \<^verbatim>\<open>world_\<close> may be null.\<close>

record App =
  balls_a :: "Pokeball list"
  world_a :: "World option"
  props_a :: "Prop list"
  pokemonController_a :: Controller
  lastTicks_a :: "32 word"
  dt_a :: real
  t_a :: real
  acc_a :: real
  gravity_a :: real
  bounceRestitution_a :: real
  rand_a :: rand_state


text \<open>\<^verbatim>\<open>App::spawnPokeball(speed)\<close>, from the camera position and direction.\<close>

definition spawnPokeball :: "vec3 \<Rightarrow> vec3 \<Rightarrow> real \<Rightarrow> App \<Rightarrow> App" where
  "spawnPokeball camPos camFront speed a =
     (let spawnPos = vadd camPos (smul camFront PROJECTILE_SPAWN_DISTANCE);
          spawnVel = vadd (smul (normalize camFront) speed) (Vec3 0 PROJECTILE_UPWARD_VELOCITY 0);
          ball = Pokeball_new\<lparr> position := spawnPos, velocity := spawnVel,
                                radius := PROJECTILE_RADIUS, life := PROJECTILE_LIFETIME \<rparr>
      in a\<lparr> balls_a := balls_a a @ [ball] \<rparr>)"

text \<open>The search of \<^verbatim>\<open>updatePokeballs\<close> for the creature to resolve when the last shake
  ends: the first one that is Capturing and closer than 1 to the capsule's base
  position.\<close>

fun finalizeCapture :: "Pokeball \<Rightarrow> Pokemon list \<Rightarrow> Pokemon list" where
  "finalizeCapture b [] = []"
| "finalizeCapture b (p # ps) =
     (if isCapturing p \<and> vlength (vsub (position_p p) (captureBasePos b)) < 1
      then (if captureSuccess b then markCaptured p else markCaptureFailed p) # ps
      else p # finalizeCapture b ps)"

text \<open>The branch \<^verbatim>\<open>if (b.locked)\<close> of the capsule loop.\<close>

definition shakeBall :: "real \<Rightarrow> Pokeball \<Rightarrow> Pokemon list \<Rightarrow> Pokeball \<times> Pokemon list" where
  "shakeBall dt b ps =
     (let b1 = b\<lparr> lockTimer := lockTimer b + dt \<rparr>;
          b2 = (if lockTimer b1 \<le> dt then b1\<lparr> captureBasePos := position b1 \<rparr> else b1);
          b3 = b2\<lparr> shakePhase := shakePhase b2 + dt / SHAKE_DURATION \<rparr>;
          (b4, ps') =
            (if shakePhase b3 \<ge> 1 then
               (let b' = b3\<lparr> shakePhase := 0, shakeCount := shakeCount b3 + 1 \<rparr>
                in (b', if shakeCount b' \<ge> MAX_SHAKES then finalizeCapture b' ps else ps))
             else (b3, ps));
          b5 = (if shakeCount b4 < MAX_SHAKES then
                  (let t = shakePhase b4;
                       shakeOffset = 0.12 * sin (t * 6.28318)
                   in b4\<lparr> position := Vec3 (vx (captureBasePos b4) + shakeOffset)
                                             (vy (captureBasePos b4))
                                             (vz (captureBasePos b4)) \<rparr>)
                else b4)
      in (b5, ps'))"

text \<open>The bounce response, written twice in the source (props and terrain): reflect,
  scale by the restitution, damp the tangential part.\<close>

definition bounce :: "real \<Rightarrow> vec3 \<Rightarrow> vec3 \<Rightarrow> vec3" where
  "bounce restitution n v =
     (let reflection = reflect v n;
          v1 = smul reflection restitution;
          normalVel = smul n (dot v1 n);
          tangentVel = smul (vsub v1 normalVel) BOUNCE_FRICTION
      in vadd normalVel tangentVel)"

definition closestPointOnAABB :: "vec3 \<Rightarrow> vec3 \<Rightarrow> vec3 \<Rightarrow> vec3" where
  "closestPointOnAABB p aabbMin aabbMax =
     Vec3 (glm_clamp (vx p) (vx aabbMin) (vx aabbMax))
          (glm_clamp (vy p) (vy aabbMin) (vy aabbMax))
          (glm_clamp (vz p) (vz aabbMin) (vz aabbMax))"

text \<open>One iteration of the loop over the props.\<close>

definition propCollision :: "real \<Rightarrow> Pokeball \<Rightarrow> Prop \<Rightarrow> Pokeball" where
  "propCollision restitution b prop =
     (let aabbMin = vadd (pos prop) (vmul (scale prop) (aabbMinLocal prop));
          aabbMax = vadd (pos prop) (vmul (scale prop) (aabbMaxLocal prop));
          closestPt = closestPointOnAABB (position b) aabbMin aabbMax;
          delta = vsub (position b) closestPt;
          distSq = dot delta delta;
          radiusSq = radius b * radius b
      in if distSq < radiusSq then
           (let dist = sqrt distSq;
                collisionNormal = (if dist > 0.0001 then sdiv delta dist else Vec3 0 1 0);
                penetration = radius b - dist;
                b1 = b\<lparr> position := vadd (position b) (smul collisionNormal penetration) \<rparr>
            in if dot (velocity b1) collisionNormal < 0
               then b1\<lparr> velocity := bounce restitution collisionNormal (velocity b1) \<rparr>
               else b1)
         else b)"

text \<open>The terrain under a point: the fallback plane when there is no world.\<close>

definition terrainAt :: "World option \<Rightarrow> real \<Rightarrow> real \<Rightarrow> (real \<times> vec3) option" where
  "terrainAt world x z =
     (case world of
        None \<Rightarrow> Some (GROUND_Y, Vec3 0 1 0)
      | Some w \<Rightarrow> do { h \<leftarrow> heightAt w x z; n \<leftarrow> normalAt w x z; Some (h, n) })"

text \<open>The terrain collision response for a capsule, given the terrain under it.\<close>

definition terrainCollision :: "real \<Rightarrow> real \<Rightarrow> vec3 \<Rightarrow> Pokeball \<Rightarrow> Pokeball" where
  "terrainCollision restitution terrainHeight terrainNormal b =
     (let terrainPoint = Vec3 (vx (position b)) terrainHeight (vz (position b));
          toBall = vsub (position b) terrainPoint;
          distToTerrain = dot toBall terrainNormal
      in if distToTerrain < radius b then
           (let penetration = radius b - distToTerrain;
                b1 = b\<lparr> position := vadd (position b) (smul terrainNormal penetration) \<rparr>
            in if dot (velocity b1) terrainNormal < 0
               then b1\<lparr> velocity := bounce restitution terrainNormal (velocity b1) \<rparr>
               else b1)
         else b)"

text \<open>Gravity and integration, the first two statements for a flying capsule.\<close>

definition integrate :: "real \<Rightarrow> real \<Rightarrow> Pokeball \<Rightarrow> Pokeball" where
  "integrate gravity step b =
     (let b1 = b\<lparr> velocity := Vec3 (vx (velocity b)) (vy (velocity b) - gravity * step)
                                    (vz (velocity b)) \<rparr>
      in b1\<lparr> position := vadd (position b1) (smul (velocity b1) step) \<rparr>)"

text \<open>The rest of the loop body, for a capsule that is active and not locked.\<close>

definition flyBall :: "App \<Rightarrow> real \<Rightarrow> Pokeball \<Rightarrow> Pokeball option" where
  "flyBall a step b =
     (let b1 = integrate (gravity_a a) step b;
          b2 = foldl (propCollision (bounceRestitution_a a)) b1 (props_a a)
      in do {
           (terrainHeight, terrainNormal) \<leftarrow>
             terrainAt (world_a a) (vx (position b2)) (vz (position b2));
           let b3 = terrainCollision (bounceRestitution_a a) terrainHeight terrainNormal b2;
           Some (b3\<lparr> life := life b3 - step \<rparr>)
         })"

text \<open>One iteration of the capsule loop: the capsule and the roster after it.\<close>

definition updateBall ::
  "App \<Rightarrow> real \<Rightarrow> real \<Rightarrow> Pokeball \<Rightarrow> Pokemon list \<Rightarrow> (Pokeball \<times> Pokemon list) option" where
  "updateBall a dt step b ps =
     (if locked b then Some (shakeBall dt b ps)
      else if \<not> active b then Some (b, ps)
      else (case flyBall a step b of None \<Rightarrow> None | Some b' \<Rightarrow> Some (b', ps)))"

fun ballLoop ::
  "App \<Rightarrow> real \<Rightarrow> real \<Rightarrow> Pokeball list \<Rightarrow> Pokemon list \<Rightarrow> (Pokeball list \<times> Pokemon list) option" where
  "ballLoop a dt step [] ps = Some ([], ps)"
| "ballLoop a dt step (b # bs) ps =
     (case updateBall a dt step b ps of
        None \<Rightarrow> None
      | Some (b', ps1) \<Rightarrow>
          (case ballLoop a dt step bs ps1 of
             None \<Rightarrow> None
           | Some (bs', ps2) \<Rightarrow> Some (b' # bs', ps2)))"

text \<open>The predicate of the final \<^verbatim>\<open>remove_if\<close>.\<close>

definition expired :: "Pokeball \<Rightarrow> bool" where
  "expired p = (life p \<le> 0 \<or> (locked p \<and> lockTimer p > 2.8))"

definition updatePokeballs :: "real \<Rightarrow> App \<Rightarrow> App option" where
  "updatePokeballs dt a =
     (let step = glm_min dt (1 / 60)
      in case ballLoop a dt step (balls_a a) (pokemon_c (pokemonController_a a)) of
           None \<Rightarrow> None
         | Some (bs, ps) \<Rightarrow>
             (let c1 = (pokemonController_a a)\<lparr> pokemon_c := ps \<rparr>;
                  (c2, bs2, g) = handlePokeballCapture c1 bs (rand_a a)
              in Some (a\<lparr> balls_a := filter (\<lambda>p. \<not> expired p) bs2,
                           pokemonController_a := c2, rand_a := g \<rparr>)))"

text \<open>The loop of \<^verbatim>\<open>updateTiming\<close> that drains the accumulator in fixed increments.\<close>

function drain :: "real \<Rightarrow> App \<Rightarrow> App option" where
  "drain acc a =
     (if acc \<ge> PHYSICS_TIMESTEP then
        (case updatePokeballs PHYSICS_TIMESTEP a of
           None \<Rightarrow> None
         | Some a' \<Rightarrow> drain (acc - PHYSICS_TIMESTEP) a')
      else Some (a\<lparr> acc_a := acc \<rparr>))"
  by pat_completeness auto
termination
proof (relation "measure (\<lambda>(acc, a). nat \<lceil>acc * 120\<rceil>)")
  show "wf (measure (\<lambda>(acc, a). nat \<lceil>acc * 120\<rceil>))"
    by simp
next
  fix acc :: real and a a' :: App
  assume "PHYSICS_TIMESTEP \<le> acc"
  then have big: "1 \<le> acc * 120"
    by (simp add: PHYSICS_TIMESTEP_def)
  have "(acc - PHYSICS_TIMESTEP) * 120 = acc * 120 - 1"
    by (simp add: PHYSICS_TIMESTEP_def algebra_simps)
  then have "\<lceil>(acc - PHYSICS_TIMESTEP) * 120\<rceil> = \<lceil>acc * 120\<rceil> - 1"
    by simp
  moreover have "1 \<le> \<lceil>acc * 120\<rceil>"
    using big by linarith
  ultimately show "((acc - PHYSICS_TIMESTEP, a'), acc, a) \<in> measure (\<lambda>(acc, a). nat \<lceil>acc * 120\<rceil>)"
    by simp
qed

declare drain.simps [simp del]

text \<open>\<^verbatim>\<open>App::updateTiming\<close>; \<open>now\<close> is what \<^verbatim>\<open>SDL_GetTicks()\<close> returns.\<close>

definition updateTiming :: "32 word \<Rightarrow> App \<Rightarrow> App option" where
  "updateTiming now a =
     (let dt = real (unat (now - lastTicks_a a)) / 1000;
          a1 = a\<lparr> dt_a := dt, lastTicks_a := now, t_a := t_a a + dt \<rparr>
      in drain (acc_a a1 + dt) a1)"

text \<open>\<^verbatim>\<open>App::updatePhysics\<close>: the creatures move, the captured ones go to the inventory.\<close>

definition updatePhysics :: "App \<Rightarrow> App option" where
  "updatePhysics a =
     (let obstacles = map pos (props_a a)
      in case updateAll (pokemonController_a a) (dt_a a) (world_a a) obstacles (rand_a a) of
           None \<Rightarrow> None
         | Some (c, g) \<Rightarrow> Some (a\<lparr> pokemonController_a := updateInventory c, rand_a := g \<rparr>))"


text \<open>The simulation state when \<^verbatim>\<open>App::init\<close> has created the world and the controller:
  no capsule, an empty roster and inventory, the member initialisers of App.h.\<close>

definition App_init :: "World option \<Rightarrow> Prop list \<Rightarrow> 32 word \<Rightarrow> rand_state \<Rightarrow> App" where
  "App_init world props ticks g =
     \<lparr> balls_a = [], world_a = world, props_a = props, pokemonController_a = Controller_new,
       lastTicks_a = ticks, dt_a = 0, t_a = 0, acc_a = 0, gravity_a = 9.8,
       bounceRestitution_a = 0.6, rand_a = g \<rparr>"

text \<open>The states the simulation can be in between two operations.  The operations are
  the ones that change the capsules, the roster or the inventory: spawning a creature,
  throwing a capsule, one physics increment (with any time step; the frame uses
  \<^const>\<open>PHYSICS_TIMESTEP\<close>), the timing and physics updates of a frame, and sending out or
  recalling an inventory slot.\<close>

inductive reachable :: "App \<Rightarrow> bool" where
  r_init: "reachable (App_init world props ticks g)"
| r_spawn: "reachable a \<Longrightarrow>
     spawnPokemon (pokemonController_a a) species ps speed rad ident (rand_a a) = (c, g) \<Longrightarrow>
     reachable (a\<lparr> pokemonController_a := c, rand_a := g \<rparr>)"
| r_throw: "reachable a \<Longrightarrow> reachable (spawnPokeball camPos camFront speed a)"
| r_increment: "reachable a \<Longrightarrow> updatePokeballs dt a = Some a' \<Longrightarrow> reachable a'"
| r_timing: "reachable a \<Longrightarrow> updateTiming now a = Some a' \<Longrightarrow> reachable a'"
| r_physics: "reachable a \<Longrightarrow> updatePhysics a = Some a' \<Longrightarrow> reachable a'"
| r_sendOut: "reachable a \<Longrightarrow>
     reachable (a\<lparr> pokemonController_a := snd (sendOutPokemon (pokemonController_a a) i ps) \<rparr>)"
| r_recall: "reachable a \<Longrightarrow>
     reachable (a\<lparr> pokemonController_a := snd (recallPokemon (pokemonController_a a) i) \<rparr>)"



text \<open>What holds of every capsule and of every creature between two operations: a locked
  capsule is not active and has no velocity, a creature in the Capturing state is
  hidden.\<close>

definition ball_ok :: "Pokeball \<Rightarrow> bool" where
  "ball_ok b = (locked b \<longrightarrow> \<not> active b \<and> velocity b = Vec3 0 0 0)"

definition creature_ok :: "Pokemon \<Rightarrow> bool" where
  "creature_ok p = (state_p p = Capturing \<longrightarrow> \<not> visible_p p)"

text \<open>The invariant of the simulation state: the two conditions above, and at most one
  entry in the side table of active slots.\<close>

definition app_ok :: "App \<Rightarrow> bool" where
  "app_ok a =
     (list_all ball_ok (balls_a a)
      \<and> list_all creature_ok (pokemon_c (pokemonController_a a))
      \<and> length (outPokemonIndices_c (pokemonController_a a)) \<le> 1)"

section \<open>Concrete inputs\<close>


text \<open>A species that is always caught, one that is caught only by the sample 0, and a
  creature of the first species as the inventory holds it after a capture.\<close>

definition sure_species :: PokemonSpecies where
  "sure_species = \<lparr> name = ''Pikachu'', displayScale = 1, catchRate = 1 \<rparr>"

definition shy_species :: PokemonSpecies where
  "shy_species = \<lparr> name = ''Bulbasaur'', displayScale = 100, catchRate = 0 \<rparr>"

definition caught :: Pokemon where
  "caught =
     \<lparr> id_p = 1, species_p = Some sure_species, position_p = Vec3 0 0 0,
       velocity_p = Vec3 0 0 0, wanderDir_p = Vec3 1 0 0, speed_p = 2, radius_p = 1 / 2,
       visible_p = False, state_p = Captured, timeUntilDirectionChange_p = 1,
       captureTimer_p = 0 \<rparr>"

text \<open>A controller whose only inventory slot is sent out.\<close>

definition ctrl_out :: Controller where
  "ctrl_out =
     \<lparr> pokemon_c = [caught\<lparr> position_p := Vec3 3 0 0, state_p := Idle, visible_p := True \<rparr>],
       inventory_c = [caught], outPokemonIndices_c = [0], nextPokemonId_c = 2 \<rparr>"

text \<open>A run of the simulation on the fallback ground plane, with a random number
  generator that always returns 0: a creature of the first species is spawned at the
  origin, a capsule is thrown from one unit behind it, the capsule hits and locks, shakes
  three times, the creature is captured, promoted to the inventory and sent out.\<close>

definition zeros :: rand_state where
  "zeros = (\<lambda>n. 0, 0)"

definition wild :: Pokemon where
  "wild =
     \<lparr> id_p = 1, species_p = Some sure_species, position_p = Vec3 0 0 0,
       velocity_p = Vec3 2 0 0, wanderDir_p = Vec3 1 0 0, speed_p = 2, radius_p = 1 / 2,
       visible_p = True, state_p = Walking, timeUntilDirectionChange_p = 1,
       captureTimer_p = 0 \<rparr>"

definition capturing :: Pokemon where
  "capturing = wild\<lparr> state_p := Capturing, visible_p := False, velocity_p := Vec3 0 0 0 \<rparr>"

definition st_spawned :: App where
  "st_spawned =
     (App_init None [] 0 zeros)
       \<lparr> pokemonController_a := Controller_new\<lparr> pokemon_c := [wild], nextPokemonId_c := 2 \<rparr>,
         rand_a := (\<lambda>n. 0, 2) \<rparr>"

definition flying :: Pokeball where
  "flying = Pokeball_new\<lparr> position := Vec3 0 0 0, velocity := Vec3 0 2 5,
                           radius := 1 / 5, life := 15 \<rparr>"

definition st_thrown :: App where
  "st_thrown = st_spawned\<lparr> balls_a := [flying] \<rparr>"

text \<open>The locked capsule after \<open>n\<close> completed shakes, at lock time \<open>t\<close>, and the state of
  the run with it and with the creature \<open>p\<close>.\<close>

definition shaking :: "real \<Rightarrow> int \<Rightarrow> Pokeball" where
  "shaking t n =
     \<lparr> position = Vec3 0 (1 / 2) 0, velocity = Vec3 0 0 0, radius = 1 / 5,
       active = False, grounded = False, life = 15 - 1 / 60, locked = True, lockTimer = t,
       shakeCount = n, shakePhase = 0,
       captureBasePos = (if n = 0 then Vec3 0 0 0 else Vec3 0 (1 / 2) 0),
       captureSuccess = True, targetPokemonId = 1 \<rparr>"

definition st_locked :: "real \<Rightarrow> int \<Rightarrow> Pokemon \<Rightarrow> App" where
  "st_locked t n p =
     st_spawned
       \<lparr> balls_a := [shaking t n],
         pokemonController_a := Controller_new\<lparr> pokemon_c := [p], nextPokemonId_c := 2 \<rparr>,
         rand_a := (\<lambda>n. 0, 3) \<rparr>"

definition st_promoted :: App where
  "st_promoted =
     (st_locked (18 / 10) 3 caught)
       \<lparr> pokemonController_a :=
           \<lparr> pokemon_c = [], inventory_c = [caught], outPokemonIndices_c = [],
             nextPokemonId_c = 2 \<rparr> \<rparr>"

definition st_out :: App where
  "st_out = st_promoted\<lparr> pokemonController_a := ctrl_out \<rparr>"

text \<open>A creature of the second species (capture probability 0) while it is being
  captured, the capsule that holds it just before its third shake ends with a failure
  stored, and a random number generator whose first sample is 1/2.\<close>

definition shy :: Pokemon where
  "shy = capturing\<lparr> species_p := Some shy_species \<rparr>"

definition last_shake :: Pokeball where
  "last_shake = (shaking (215 / 120) 2)\<lparr> shakePhase := 71 / 72, captureSuccess := False \<rparr>"

definition half_then_zeros :: rand_state where
  "half_then_zeros = (\<lambda>n. if n = 0 then 1 / 2 else 0, 0)"






section \<open>Properties of the height field\<close>


lemma idx_in_range:
  fixes i j W H :: int
  assumes "0 \<le> i" "i \<le> W - 1" "0 \<le> j" "j \<le> H - 1"
  shows "0 \<le> j * W + i \<and> j * W + i < W * H"
proof -
  have W: "0 \<le> W" using assms by linarith
  have "j * W \<le> (H - 1) * W" using assms W by (intro mult_right_mono) auto
  then have "j * W + i \<le> (H - 1) * W + (W - 1)" using assms by linarith
  also have "\<dots> < W * H" by (simp add: algebra_simps)
  finally have "j * W + i < W * H" .
  moreover have "0 \<le> j * W" using assms W by simp
  ultimately show ?thesis using assms by simp
qed

lemma Hc_FromHeightMap:
  assumes "0 \<le> i" "i < wpx d" "0 \<le> j" "j < hpx d"
  shows "Hc (FromHeightMap (Some d) cs hs) i j
         = Some ((real (unat (pixels d ! nat (j * wpx d + i))) / 255) * hs)"
proof -
  have r: "0 \<le> j * wpx d + i \<and> j * wpx d + i < wpx d * hpx d"
    using idx_in_range[of i "wpx d" j "hpx d"] assms by simp
  then have n: "nat (j * wpx d + i) < nat (wpx d * hpx d)" by linarith
  show ?thesis using assms r n
    by (simp add: Hc_def FromHeightMap_def std_clamp_def idx_def Let_def)
qed

lemma Hc_FromHeightMap_Some:
  assumes "1 \<le> wpx d" "1 \<le> hpx d"
  shows "\<exists>h. Hc (FromHeightMap (Some d) cs hs) i j = Some h"
proof -
  let ?i = "std_clamp i 0 (wpx d - 1)" and ?j = "std_clamp j 0 (hpx d - 1)"
  have c: "0 \<le> ?i" "?i < wpx d" "0 \<le> ?j" "?j < hpx d"
    using assms by (auto simp: std_clamp_def)
  have "Hc (FromHeightMap (Some d) cs hs) i j = Hc (FromHeightMap (Some d) cs hs) ?i ?j"
    using assms by (simp add: Hc_def FromHeightMap_def Let_def std_clamp_def)
  also have "\<dots> = Some ((real (unat (pixels d ! nat (?j * wpx d + ?i))) / 255) * hs)"
    by (rule Hc_FromHeightMap[OF c])
  finally show ?thesis by blast
qed

text \<open>Every query on a height field built by \<^const>\<open>FromHeightMap\<close> returns a value: the
  clamped indices are inside the sample vector.\<close>

lemma heightAt_FromHeightMap_total:
  "\<exists>h. heightAt (FromHeightMap img cs hs) x z = Some h"
proof (cases img)
  case None
  then show ?thesis by (simp add: heightAt_def FromHeightMap_def World_new_def)
next
  case (Some d)
  show ?thesis
  proof (cases "wpx d \<le> 1 \<or> hpx d \<le> 1")
    case True
    then show ?thesis using Some by (auto simp add: heightAt_def FromHeightMap_def)
  next
    case False
    then have dims: "1 \<le> wpx d" "1 \<le> hpx d" by auto
    let ?w = "FromHeightMap (Some d) cs hs"
    have ex: "\<And>i j. \<exists>h. Hc ?w i j = Some h"
      using Hc_FromHeightMap_Some[OF dims] by blast
    have "imgW ?w = wpx d" "imgH ?w = hpx d" by (simp_all add: FromHeightMap_def)
    then have g: "\<not> (imgW ?w \<le> 1 \<or> imgH ?w \<le> 1)" using False by simp
    define u where "u = std_clamp ((x + halfWm ?w) / cellSize ?w) 0 (real_of_int (imgW ?w - 1))"
    define v where "v = std_clamp ((z + halfZm ?w) / cellSize ?w) 0 (real_of_int (imgH ?w - 1))"
    obtain h00 where a: "Hc ?w \<lfloor>u\<rfloor> \<lfloor>v\<rfloor> = Some h00" using ex by blast
    obtain h10 where b: "Hc ?w (\<lfloor>u\<rfloor> + 1) \<lfloor>v\<rfloor> = Some h10" using ex by blast
    obtain h01 where c: "Hc ?w \<lfloor>u\<rfloor> (\<lfloor>v\<rfloor> + 1) = Some h01" using ex by blast
    obtain h11 where d: "Hc ?w (\<lfloor>u\<rfloor> + 1) (\<lfloor>v\<rfloor> + 1) = Some h11" using ex by blast
    show ?thesis
      unfolding Some heightAt_def Let_def
      using g a b c d by (simp add: u_def v_def)
  qed
qed



text \<open>
  Claim C8.  A height field without samples (the default-constructed world, which is also
  what a failed load leaves) answers every height query with 0 and every normal query
  with the unit up vector; no query fails.
\<close>

theorem no_data_flat_plane:
  "heightAt World_new x z = Some 0 \<and> normalAt World_new x z = Some (Vec3 0 1 0)
   \<and> FromHeightMap None cs hs = World_new"
  by (simp add: heightAt_def normalAt_def World_new_def normalize_def dot_def sdiv_def
        FromHeightMap_def)

section \<open>Properties of the inventory\<close>

text \<open>
  Claim C9.  A failed inventory operation is atomic: when \<^const>\<open>sendOutPokemon\<close> or
  \<^const>\<open>recallPokemon\<close> returns false, the controller (roster, inventory, side table of
  active slots) is exactly what it was before the call.
\<close>

theorem failed_inventory_operation_changes_nothing:
  "(\<not> fst (sendOutPokemon c i ps) \<longrightarrow> snd (sendOutPokemon c i ps) = c)
   \<and> (\<not> fst (recallPokemon c j) \<longrightarrow> snd (recallPokemon c j) = c)"
  by (simp add: sendOutPokemon_def recallPokemon_def Let_def split: option.splits)

theorem failed_inventory_operation_changes_nothing_witness:
  "\<not> fst (sendOutPokemon ctrl_out 0 (Vec3 1 0 1))
   \<and> snd (sendOutPokemon ctrl_out 0 (Vec3 1 0 1)) = ctrl_out
   \<and> \<not> fst (recallPokemon ctrl_out 1)
   \<and> snd (recallPokemon ctrl_out 1) = ctrl_out"
  using failed_inventory_operation_changes_nothing [of ctrl_out 0 "Vec3 1 0 1" 1]
  by (simp add: sendOutPokemon_def recallPokemon_def ctrl_out_def hasAnyPokemonOut_def)

section \<open>Capsules through one physics increment\<close>

lemma shakeBall_ball_independent:
  "fst (shakeBall dt b ps) = fst (shakeBall dt b [])"
  by (simp add: shakeBall_def Let_def split_beta)

lemma shakeBall_flags:
  "locked (fst (shakeBall dt b ps)) = locked b"
  "active (fst (shakeBall dt b ps)) = active b"
  "velocity (fst (shakeBall dt b ps)) = velocity b"
  "life (fst (shakeBall dt b ps)) = life b"
  "radius (fst (shakeBall dt b ps)) = radius b"
  "captureSuccess (fst (shakeBall dt b ps)) = captureSuccess b"
  "targetPokemonId (fst (shakeBall dt b ps)) = targetPokemonId b"
  by (simp_all add: shakeBall_def Let_def split_beta)

lemma propCollision_locked [simp]:
  "locked (propCollision e b prop) = locked b"
  by (simp add: propCollision_def Let_def)

lemma foldl_propCollision_locked [simp]:
  "locked (foldl (propCollision e) b props) = locked b"
  by (induction props arbitrary: b) simp_all

lemma terrainCollision_locked [simp]:
  "locked (terrainCollision e h n b) = locked b"
  by (simp add: terrainCollision_def Let_def)

lemma integrate_locked [simp]:
  "locked (integrate gr step b) = locked b"
  by (simp add: integrate_def Let_def)

lemma flyBall_locked:
  "flyBall a step b = Some b' \<Longrightarrow> locked b' = locked b"
  by (auto simp: flyBall_def Let_def split: option.splits prod.splits Option.bind_splits)

lemma updateBall_locked:
  assumes "updateBall a dt step b ps = Some (b', ps')"
  shows "locked b' = locked b"
proof (cases "locked b")
  case True
  then have "b' = fst (shakeBall dt b ps)" using assms by (simp add: updateBall_def)
  then show ?thesis by (simp add: shakeBall_flags)
next
  case False
  then show ?thesis using assms
    by (auto simp: updateBall_def flyBall_locked split: if_splits option.splits)
qed

lemma updateBall_of_locked:
  assumes "locked b"
  shows "updateBall a dt step b ps = Some (shakeBall dt b ps)"
  using assms by (simp add: updateBall_def)

lemma updateBall_ok:
  assumes "updateBall a dt step b ps = Some (b', ps')" and "ball_ok b"
  shows "ball_ok b'"
proof (cases "locked b")
  case True
  then have "b' = fst (shakeBall dt b ps)" using assms(1) by (simp add: updateBall_def)
  then show ?thesis using True assms(2) by (simp add: ball_ok_def shakeBall_flags)
next
  case False
  then have "\<not> locked b'" using updateBall_locked[OF assms(1)] by simp
  then show ?thesis by (simp add: ball_ok_def)
qed

lemma ballLoop_length:
  "ballLoop a dt step bs ps = Some (bs', ps') \<Longrightarrow> length bs' = length bs"
  by (induction bs arbitrary: ps bs' ps') (auto split: option.splits prod.splits)

lemma ballLoop_ok:
  "ballLoop a dt step bs ps = Some (bs', ps') \<Longrightarrow> list_all ball_ok bs \<Longrightarrow> list_all ball_ok bs'"
proof (induction bs arbitrary: ps bs' ps')
  case Nil
  then show ?case by simp
next
  case (Cons b bs)
  from Cons.prems(1) obtain b1 ps1 bs1 where
    u: "updateBall a dt step b ps = Some (b1, ps1)" and
    l: "ballLoop a dt step bs ps1 = Some (bs1, ps')" and e: "bs' = b1 # bs1"
    by (auto split: option.splits prod.splits)
  show ?case using Cons.IH[OF l] Cons.prems(2) updateBall_ok[OF u] e by simp
qed

lemma ballLoop_locked_nth:
  "ballLoop a dt step bs ps = Some (bs', ps') \<Longrightarrow> k < length bs \<Longrightarrow> locked (bs ! k) \<Longrightarrow>
   bs' ! k = fst (shakeBall dt (bs ! k) [])"
proof (induction bs arbitrary: ps bs' ps' k)
  case Nil
  then show ?case by simp
next
  case (Cons b bs)
  from Cons.prems(1) obtain b1 ps1 bs1 where
    u: "updateBall a dt step b ps = Some (b1, ps1)" and
    l: "ballLoop a dt step bs ps1 = Some (bs1, ps')" and e: "bs' = b1 # bs1"
    by (auto split: option.splits prod.splits)
  show ?case
  proof (cases k)
    case 0
    then have "locked b" using Cons.prems by simp
    then have "b1 = fst (shakeBall dt b ps)" using u by (simp add: updateBall_def)
    then show ?thesis using 0 e shakeBall_ball_independent[of dt b ps] by simp
  next
    case (Suc m)
    then show ?thesis using Cons.IH[OF l, of m] Cons.prems e by simp
  qed
qed

section \<open>Capsules through the capture pass\<close>

lemma captureHit_ball:
  assumes "captureHit p ball g = (p', ball', g')"
  shows "locked ball'" "\<not> active ball'" "velocity ball' = Vec3 0 0 0"
    "position ball' = vadd (position_p p) (Vec3 0 (radius_p p) 0)"
    "targetPokemonId ball' = id_p p"
    "captureSuccess ball' = (fst g (snd g) \<le> getCatchRate p)"
    "g' = (fst g, Suc (snd g))"
    "radius ball' = radius ball" "life ball' = life ball"
  using assms
  by (auto simp: captureHit_def Let_def randomFloat_def startCapture_def getCatchRate_def)

lemma captureHit_creature:
  assumes "captureHit p ball g = (p', ball', g')"
  shows "state_p p' = Capturing" "\<not> visible_p p'" "velocity_p p' = Vec3 0 0 0"
    "position_p p' = position_p p" "id_p p' = id_p p" "captureTimer_p p' = 0"
    "radius_p p' = radius_p p" "species_p p' = species_p p"
  using assms
  by (auto simp: captureHit_def Let_def randomFloat_def startCapture_def)

lemma hitBalls_length:
  "hitBalls p bs g = (p', bs', g') \<Longrightarrow> length bs' = length bs"
  by (induction bs arbitrary: p' bs' g') (auto split: if_splits prod.splits)

lemma hitBalls_locked_nth:
  "hitBalls p bs g = (p', bs', g') \<Longrightarrow> k < length bs \<Longrightarrow> locked (bs ! k) \<Longrightarrow> bs' ! k = bs ! k"
proof (induction bs arbitrary: p' bs' g' k)
  case Nil
  then show ?case by simp
next
  case (Cons b bs)
  show ?case
  proof (cases k)
    case 0
    then show ?thesis using Cons.prems by (auto split: if_splits prod.splits)
  next
    case (Suc m)
    then show ?thesis using Cons.prems Cons.IH[of _ _ _ m]
      by (auto split: if_splits prod.splits)
  qed
qed

lemma hitBalls_ok:
  "hitBalls p bs g = (p', bs', g') \<Longrightarrow> list_all ball_ok bs \<Longrightarrow> list_all ball_ok bs'"
proof (induction bs arbitrary: p' bs' g')
  case Nil
  then show ?case by simp
next
  case (Cons b bs)
  then show ?case
    by (auto split: if_splits prod.splits simp: ball_ok_def dest: captureHit_ball)
qed


lemma captureLoop_length:
  "captureLoop invt outs ps bs g = (ps', bs', g') \<Longrightarrow> length bs' = length bs"
proof (induction ps arbitrary: bs g ps' bs' g')
  case Nil
  then show ?case by simp
next
  case (Cons p ps)
  then show ?case
    by (auto split: if_splits prod.splits dest!: hitBalls_length) 
qed

lemma captureLoop_locked_nth:
  "captureLoop invt outs ps bs g = (ps', bs', g') \<Longrightarrow> k < length bs \<Longrightarrow> locked (bs ! k) \<Longrightarrow>
   bs' ! k = bs ! k"
proof (induction ps arbitrary: bs g ps' bs' g')
  case Nil
  then show ?case by simp
next
  case (Cons p ps)
  show ?case
  proof (cases "isCaptured p \<or> isCapturing p \<or> captureFailed p \<or> isOwned invt outs p")
    case True
    then show ?thesis using Cons.prems Cons.IH[of bs g _ _ _]
      by (auto split: if_splits prod.splits)
  next
    case False
    obtain p1 bs1 g1 where h: "hitBalls p bs g = (p1, bs1, g1)" by (cases "hitBalls p bs g") auto
    obtain ps2 bs2 g2 where c: "captureLoop invt outs ps bs1 g1 = (ps2, bs2, g2)"
      by (cases "captureLoop invt outs ps bs1 g1") auto
    have e: "bs' = bs2" using False Cons.prems(1) h c by simp
    have l1: "length bs1 = length bs" using hitBalls_length[OF h] .
    have n1: "bs1 ! k = bs ! k" using hitBalls_locked_nth[OF h Cons.prems(2,3)] .
    have "bs2 ! k = bs1 ! k" using Cons.IH[OF c] l1 n1 Cons.prems(2,3) by simp
    then show ?thesis using e n1 by simp
  qed
qed

lemma captureLoop_ok:
  "captureLoop invt outs ps bs g = (ps', bs', g') \<Longrightarrow> list_all ball_ok bs \<Longrightarrow> list_all ball_ok bs'"
proof (induction ps arbitrary: bs g ps' bs' g')
  case Nil
  then show ?case by simp
next
  case (Cons p ps)
  show ?case
  proof (cases "isCaptured p \<or> isCapturing p \<or> captureFailed p \<or> isOwned invt outs p")
    case True
    then show ?thesis using Cons.prems Cons.IH[of bs g _ _ _]
      by (auto split: if_splits prod.splits)
  next
    case False
    obtain p1 bs1 g1 where h: "hitBalls p bs g = (p1, bs1, g1)" by (cases "hitBalls p bs g") auto
    obtain ps2 bs2 g2 where c: "captureLoop invt outs ps bs1 g1 = (ps2, bs2, g2)"
      by (cases "captureLoop invt outs ps bs1 g1") auto
    have e: "bs' = bs2" using False Cons.prems(1) h c by simp
    show ?thesis using Cons.IH[OF c hitBalls_ok[OF h Cons.prems(2)]] e by simp
  qed
qed

section \<open>Creatures\<close>

lemma pickNewWanderDirection_fields:
  "state_p (fst (pickNewWanderDirection p g)) = Walking"
  "visible_p (fst (pickNewWanderDirection p g)) = visible_p p"
  "id_p (fst (pickNewWanderDirection p g)) = id_p p"
  "position_p (fst (pickNewWanderDirection p g)) = position_p p"
  "snd (pickNewWanderDirection p g) = (fst g, Suc (Suc (snd g)))"
  by (simp_all add: pickNewWanderDirection_def randomFloat_def Let_def split_beta)

lemma pickNewWanderDirection_eqD:
  assumes "pickNewWanderDirection p g = (p', g')"
  shows "state_p p' = Walking \<and> visible_p p' = visible_p p \<and> id_p p' = id_p p
         \<and> position_p p' = position_p p"
  using assms pickNewWanderDirection_fields[of p g] by (metis fst_conv)

lemma Pokemon_update_state:
  assumes "Pokemon_update p dt world obstacles g = Some (p', g')"
  shows "state_p p' \<noteq> CaptureFailed"
    and "state_p p' = Capturing \<longleftrightarrow> state_p p = Capturing"
    and "state_p p = Capturing \<Longrightarrow> visible_p p' = visible_p p"
    and "id_p p' = id_p p"
proof -
  consider (a) "state_p p = Captured" | (b) "state_p p = CaptureFailed"
    | (c) "state_p p = Capturing" | (d) "state_p p = Idle \<or> state_p p = Walking"
    by (cases "state_p p") auto
  then have "state_p p' \<noteq> CaptureFailed \<and> (state_p p' = Capturing \<longleftrightarrow> state_p p = Capturing)
     \<and> (state_p p = Capturing \<longrightarrow> visible_p p' = visible_p p) \<and> id_p p' = id_p p"
  proof cases
    case a
    then show ?thesis using assms by (simp add: Pokemon_update_def)
  next
    case b
    then show ?thesis using assms
      by (auto simp: Pokemon_update_def split_beta Let_def pickNewWanderDirection_fields)
  next
    case c
    then show ?thesis using assms by (auto simp: Pokemon_update_def)
  next
    case d
    then show ?thesis using assms
      by (auto simp: Pokemon_update_def split_beta Let_def pickNewWanderDirection_fields
          split: if_splits option.splits Option.bind_splits
          dest!: pickNewWanderDirection_eqD)
  qed
  then show "state_p p' \<noteq> CaptureFailed"
    and "state_p p' = Capturing \<longleftrightarrow> state_p p = Capturing"
    and "state_p p = Capturing \<Longrightarrow> visible_p p' = visible_p p"
    and "id_p p' = id_p p"
    by auto
qed

lemma Pokemon_update_ok:
  assumes "Pokemon_update p dt world obstacles g = Some (p', g')" and "creature_ok p"
  shows "creature_ok p'"
  using Pokemon_update_state[OF assms(1)] assms(2) by (auto simp: creature_ok_def)

lemma updateEach_ok:
  "updateEach ps dt world obstacles g = Some (ps', g') \<Longrightarrow> list_all creature_ok ps \<Longrightarrow>
   list_all creature_ok ps'"
proof (induction ps arbitrary: g ps' g')
  case Nil
  then show ?case by simp
next
  case (Cons p ps)
  from Cons.prems(1) obtain p1 g1 ps1 where
    u: "Pokemon_update p dt world obstacles g = Some (p1, g1)" and
    l: "updateEach ps dt world obstacles g1 = Some (ps1, g')" and e: "ps' = p1 # ps1"
    by (auto split: option.splits prod.splits)
  show ?case using Cons.IH[OF l] Cons.prems(2) Pokemon_update_ok[OF u] e by simp
qed

lemma finalizeCapture_ok:
  "list_all creature_ok ps \<Longrightarrow> list_all creature_ok (finalizeCapture b ps)"
  by (induction ps) (auto simp: creature_ok_def markCaptured_def markCaptureFailed_def)

lemma shakeBall_roster_ok:
  "list_all creature_ok ps \<Longrightarrow> list_all creature_ok (snd (shakeBall dt b ps))"
  by (simp add: shakeBall_def Let_def split_beta finalizeCapture_ok)

lemma updateBall_roster_ok:
  assumes "updateBall a dt step b ps = Some (b', ps')" and "list_all creature_ok ps"
  shows "list_all creature_ok ps'"
proof (cases "locked b")
  case True
  then have "ps' = snd (shakeBall dt b ps)" using assms(1) by (simp add: updateBall_def)
  then show ?thesis using assms(2) by (simp add: shakeBall_roster_ok)
next
  case False
  then have "ps' = ps" using assms(1)
    by (auto simp: updateBall_def split: if_splits option.splits)
  then show ?thesis using assms(2) by simp
qed

lemma ballLoop_roster_ok:
  "ballLoop a dt step bs ps = Some (bs', ps') \<Longrightarrow> list_all creature_ok ps \<Longrightarrow>
   list_all creature_ok ps'"
proof (induction bs arbitrary: ps bs' ps')
  case Nil
  then show ?case by simp
next
  case (Cons b bs)
  from Cons.prems(1) obtain b1 ps1 bs1 where
    u: "updateBall a dt step b ps = Some (b1, ps1)" and
    l: "ballLoop a dt step bs ps1 = Some (bs1, ps')"
    by (auto split: option.splits prod.splits)
  show ?case using Cons.IH[OF l updateBall_roster_ok[OF u Cons.prems(2)]] .
qed

lemma hitBalls_creature:
  "hitBalls p bs g = (p', bs', g') \<Longrightarrow> p' = p \<or> (state_p p' = Capturing \<and> \<not> visible_p p')"
  by (induction bs arbitrary: p' bs' g')
     (auto split: if_splits prod.splits dest: captureHit_creature)

lemma captureLoop_roster_ok:
  "captureLoop invt outs ps bs g = (ps', bs', g') \<Longrightarrow> list_all creature_ok ps \<Longrightarrow>
   list_all creature_ok ps'"
proof (induction ps arbitrary: bs g ps' bs' g')
  case Nil
  then show ?case by simp
next
  case (Cons p ps)
  show ?case
  proof (cases "isCaptured p \<or> isCapturing p \<or> captureFailed p \<or> isOwned invt outs p")
    case True
    then show ?thesis using Cons.prems Cons.IH[of bs g _ _ _]
      by (auto split: if_splits prod.splits)
  next
    case False
    obtain p1 bs1 g1 where h: "hitBalls p bs g = (p1, bs1, g1)" by (cases "hitBalls p bs g") auto
    obtain ps2 bs2 g2 where c: "captureLoop invt outs ps bs1 g1 = (ps2, bs2, g2)"
      by (cases "captureLoop invt outs ps bs1 g1") auto
    have e: "ps' = p1 # ps2" using False Cons.prems(1) h c by simp
    have "creature_ok p1" using hitBalls_creature[OF h] Cons.prems(2)
      by (auto simp: creature_ok_def)
    then show ?thesis using Cons.IH[OF c] Cons.prems(2) e by simp
  qed
qed

lemma moveCaptured_subset:
  "moveCaptured ps invt outs = (ps', invt') \<Longrightarrow> set ps' \<subseteq> set ps"
proof (induction ps arbitrary: invt ps' invt')
  case Nil
  then show ?case by simp
next
  case (Cons p ps)
  show ?case
  proof (cases "isCaptured p \<and> \<not> visible_p p \<and> \<not> isOwned invt outs p")
    case True
    then have "moveCaptured ps (invt @ [p]) outs = (ps', invt')" using Cons.prems by simp
    then show ?thesis using Cons.IH by fastforce
  next
    case False
    obtain ps1 invt1 where m: "moveCaptured ps invt outs = (ps1, invt1)"
      by (cases "moveCaptured ps invt outs") auto
    then have "ps' = p # ps1" using False Cons.prems by (auto split: if_splits)
    then show ?thesis using Cons.IH[OF m] by auto
  qed
qed

lemma eraseLast_subset:
  "eraseLast P xs = Some ys \<Longrightarrow> set ys \<subseteq> set xs"
  by (induction xs arbitrary: ys) (auto split: option.splits if_splits)

section \<open>The invariant through every operation\<close>

lemma handlePokeballCapture_outs:
  assumes "handlePokeballCapture c bs g = (c', bs', g')"
  shows "outPokemonIndices_c c' = outPokemonIndices_c c" "inventory_c c' = inventory_c c"
  using assms by (auto simp: handlePokeballCapture_def split: prod.splits)

lemma updatePokeballs_ok:
  assumes "updatePokeballs dt a = Some a'" and "app_ok a"
  shows "app_ok a'"
proof -
  let ?step = "glm_min dt (1 / 60)"
  let ?c = "pokemonController_a a"
  from assms(1) obtain bs ps where
    l: "ballLoop a dt ?step (balls_a a) (pokemon_c ?c) = Some (bs, ps)"
    by (auto simp: updatePokeballs_def Let_def split: option.splits)
  obtain ps2 bs2 g2 where
    c: "captureLoop (inventory_c ?c) (outPokemonIndices_c ?c) ps bs (rand_a a) = (ps2, bs2, g2)"
    by (cases "captureLoop (inventory_c ?c) (outPokemonIndices_c ?c) ps bs (rand_a a)") auto
  have a': "a' = a\<lparr> balls_a := filter (\<lambda>p. \<not> expired p) bs2,
                     pokemonController_a := ?c\<lparr> pokemon_c := ps2 \<rparr>, rand_a := g2 \<rparr>"
    using assms(1) l c by (simp add: updatePokeballs_def Let_def handlePokeballCapture_def)
  have b1: "list_all ball_ok bs" using ballLoop_ok[OF l] assms(2) by (simp add: app_ok_def)
  have b2: "list_all ball_ok bs2" using captureLoop_ok[OF c b1] .
  have p1: "list_all creature_ok ps" using ballLoop_roster_ok[OF l] assms(2) by (simp add: app_ok_def)
  have p2: "list_all creature_ok ps2" using captureLoop_roster_ok[OF c p1] .
  show ?thesis using a' b2 p2 assms(2) by (simp add: app_ok_def list_all_iff)
qed

lemma drain_ok:
  "drain acc a = Some a' \<Longrightarrow> app_ok a \<Longrightarrow> app_ok a'"
proof (induction acc a rule: drain.induct)
  case (1 acc a)
  show ?case
  proof (cases "acc \<ge> PHYSICS_TIMESTEP")
    case True
    then obtain a1 where u: "updatePokeballs PHYSICS_TIMESTEP a = Some a1"
      and d: "drain (acc - PHYSICS_TIMESTEP) a1 = Some a'"
      using "1.prems"(1) by (subst (asm) drain.simps) (auto split: option.splits)
    show ?thesis using "1.IH"[OF True u d] updatePokeballs_ok[OF u "1.prems"(2)] by simp
  next
    case False
    then have "a' = a\<lparr> acc_a := acc \<rparr>" using "1.prems"(1) by (subst (asm) drain.simps) simp
    then show ?thesis using "1.prems"(2) by (simp add: app_ok_def)
  qed
qed

lemma updateTiming_ok:
  assumes "updateTiming now a = Some a'" and "app_ok a"
  shows "app_ok a'"
proof -
  let ?dt = "real (unat (now - lastTicks_a a)) / 1000"
  let ?a1 = "a\<lparr> dt_a := ?dt, lastTicks_a := now, t_a := t_a a + ?dt \<rparr>"
  have d: "drain (acc_a ?a1 + ?dt) ?a1 = Some a'"
    using assms(1) by (simp add: updateTiming_def Let_def)
  have "app_ok ?a1" using assms(2) by (simp add: app_ok_def)
  then show ?thesis using drain_ok[OF d] by simp
qed

lemma updatePhysics_ok:
  assumes "updatePhysics a = Some a'" and "app_ok a"
  shows "app_ok a'"
proof -
  let ?c = "pokemonController_a a"
  from assms(1) obtain ps g1 where
    u: "updateEach (pokemon_c ?c) (dt_a a) (world_a a) (map pos (props_a a)) (rand_a a) = Some (ps, g1)"
    by (auto simp: updatePhysics_def updateAll_def Let_def split: option.splits)
  obtain ps2 invt2 where
    m: "moveCaptured ps (inventory_c ?c) (outPokemonIndices_c ?c) = (ps2, invt2)"
    by (cases "moveCaptured ps (inventory_c ?c) (outPokemonIndices_c ?c)") auto
  have a': "a' = a\<lparr> pokemonController_a := ?c\<lparr> pokemon_c := ps2, inventory_c := invt2 \<rparr>,
                     rand_a := g1 \<rparr>"
    using assms(1) u m by (simp add: updatePhysics_def updateAll_def Let_def updateInventory_def)
  have p1: "list_all creature_ok ps" using updateEach_ok[OF u] assms(2) by (simp add: app_ok_def)
  have "set ps2 \<subseteq> set ps" using moveCaptured_subset[OF m] .
  then have p2: "list_all creature_ok ps2" using p1 by (auto simp: list_all_iff)
  show ?thesis using a' p2 assms(2) by (simp add: app_ok_def)
qed

lemma Pokemon_new_state:
  "state_p (fst (Pokemon_new species ps speed rad ident g)) = Walking"
  "id_p (fst (Pokemon_new species ps speed rad ident g)) = ident"
  by (simp_all add: Pokemon_new_def pickNewWanderDirection_fields)

lemma spawnPokemon_ok:
  assumes "spawnPokemon (pokemonController_a a) species ps speed rad ident (rand_a a) = (c, g)"
    and "app_ok a"
  shows "app_ok (a\<lparr> pokemonController_a := c, rand_a := g \<rparr>)"
proof -
  obtain p g1 where n: "Pokemon_new species ps speed rad
      (if ident = 0 then nextPokemonId_c (pokemonController_a a) else ident) (rand_a a) = (p, g1)"
    by (cases "Pokemon_new species ps speed rad
      (if ident = 0 then nextPokemonId_c (pokemonController_a a) else ident) (rand_a a)") auto
  have st: "state_p p = Walking" using Pokemon_new_state(1)[of species ps speed rad _ "rand_a a"] n
    by (metis fst_conv)
  have "pokemon_c c = pokemon_c (pokemonController_a a) @ [p]
        \<and> outPokemonIndices_c c = outPokemonIndices_c (pokemonController_a a)"
    using assms(1) n by (auto simp: spawnPokemon_def Let_def split: if_splits)
  then show ?thesis using assms(2) st by (simp add: app_ok_def creature_ok_def)
qed

lemma spawnPokeball_ok:
  assumes "app_ok a"
  shows "app_ok (spawnPokeball camPos camFront speed a)"
  using assms by (simp add: app_ok_def spawnPokeball_def Let_def ball_ok_def Pokeball_new_def)

lemma sendOutPokemon_ok:
  assumes "app_ok a"
  shows "app_ok (a\<lparr> pokemonController_a := snd (sendOutPokemon (pokemonController_a a) i ps) \<rparr>)"
  using assms
  by (simp add: app_ok_def sendOutPokemon_def Let_def hasAnyPokemonOut_def creature_ok_def)

lemma recallPokemon_ok:
  assumes "app_ok a"
  shows "app_ok (a\<lparr> pokemonController_a := snd (recallPokemon (pokemonController_a a) i) \<rparr>)"
proof (cases "fst (recallPokemon (pokemonController_a a) i)")
  case False
  then have "snd (recallPokemon (pokemonController_a a) i) = pokemonController_a a"
    by (simp add: recallPokemon_def Let_def split: option.splits if_splits)
  then show ?thesis using assms by (simp add: app_ok_def)
next
  case True
  let ?c = "pokemonController_a a"
  from True obtain ps where
    e: "eraseLast (\<lambda>p. id_p p = id_p (inventory_c ?c ! i) \<and> isOwnedPokemon ?c p) (pokemon_c ?c) = Some ps"
    and r: "snd (recallPokemon ?c i)
            = ?c\<lparr> pokemon_c := ps, outPokemonIndices_c := remove1 i (outPokemonIndices_c ?c) \<rparr>"
    by (auto simp: recallPokemon_def Let_def split: option.splits if_splits)
  have "set ps \<subseteq> set (pokemon_c ?c)" using eraseLast_subset[OF e] .
  then have p: "list_all creature_ok ps" using assms by (auto simp: app_ok_def list_all_iff)
  have "length (remove1 i (outPokemonIndices_c ?c)) \<le> length (outPokemonIndices_c ?c)"
    by (simp add: length_remove1)
  then show ?thesis using assms p r by (simp add: app_ok_def)
qed

lemma reachable_ok:
  "reachable a \<Longrightarrow> app_ok a"
proof (induction rule: reachable.induct)
  case (r_init world props ticks g)
  then show ?case by (simp add: app_ok_def App_init_def Controller_new_def)
next
  case (r_spawn a species ps speed rad ident c g)
  then show ?case using spawnPokemon_ok by blast
next
  case (r_throw a camPos camFront speed)
  then show ?case using spawnPokeball_ok by blast
next
  case (r_increment a dt a')
  then show ?case using updatePokeballs_ok by blast
next
  case (r_timing a now a')
  then show ?case using updateTiming_ok by blast
next
  case (r_physics a a')
  then show ?case using updatePhysics_ok by blast
next
  case (r_sendOut a i ps)
  then show ?case using sendOutPokemon_ok by blast
next
  case (r_recall a i)
  then show ?case using recallPokemon_ok by blast
qed

section \<open>A concrete run\<close>

lemma run_spawn:
  "spawnPokemon (pokemonController_a (App_init None [] 0 zeros)) (Some sure_species)
     (Vec3 0 0 0) 2 (1 / 2) 0 (rand_a (App_init None [] 0 zeros))
   = (Controller_new\<lparr> pokemon_c := [wild], nextPokemonId_c := 2 \<rparr>, (\<lambda>n. 0, 2))"
  by (simp add: spawnPokemon_def App_init_def zeros_def Controller_new_def Pokemon_new_def
      pickNewWanderDirection_def randomFloat_def Let_def normalize_def sdiv_def dot_def smul_def
      wild_def numeral_2_eq_2)

lemma run_throw:
  "spawnPokeball (Vec3 0 0 (- 1)) (Vec3 0 0 1) 5 st_spawned = st_thrown"
  by (simp add: spawnPokeball_def st_thrown_def st_spawned_def flying_def App_init_def Let_def
      vadd_def smul_def normalize_def sdiv_def dot_def PROJECTILE_SPAWN_DISTANCE_def
      PROJECTILE_UPWARD_VELOCITY_def PROJECTILE_RADIUS_def PROJECTILE_LIFETIME_def)

lemmas run_defs =
  updatePokeballs_def st_spawned_def App_init_def Let_def glm_min_def updateBall_def
  handlePokeballCapture_def Controller_new_def isCaptured_def isCapturing_def
  captureFailed_def isOwned_def expired_def st_locked_def shaking_def capturing_def wild_def
  shakeBall_def SHAKE_DURATION_def MAX_SHAKES_def vsub_def vlength_def dot_def
  markCaptured_def markCaptureFailed_def caught_def sure_species_def

lemma run_hit:
  "updatePokeballs (6 / 10) st_thrown = Some (st_locked 0 0 capturing)"
  by (simp add: run_defs st_thrown_def flying_def flyBall_def integrate_def terrainAt_def
      terrainCollision_def GROUND_Y_def vadd_def smul_def Pokeball_new_def collide_def
      length2_def captureHit_def startCapture_def getCatchRate_def randomFloat_def)

lemma run_shake1:
  "updatePokeballs (6 / 10) (st_locked 0 0 capturing) = Some (st_locked (6 / 10) 1 capturing)"
  by (simp add: run_defs)

lemma run_shake2:
  "updatePokeballs (6 / 10) (st_locked (6 / 10) 1 capturing) = Some (st_locked (12 / 10) 2 capturing)"
  by (simp add: run_defs)

lemma run_shake3:
  "updatePokeballs (6 / 10) (st_locked (12 / 10) 2 capturing) = Some (st_locked (18 / 10) 3 caught)"
  by (simp add: run_defs)

lemma run_promote:
  "updatePhysics (st_locked (18 / 10) 3 caught) = Some st_promoted"
  by (simp add: updatePhysics_def updateAll_def Pokemon_update_def updateInventory_def
      st_promoted_def run_defs)

lemma run_sendOut:
  "snd (sendOutPokemon (pokemonController_a st_promoted) 0 (Vec3 3 0 0)) = ctrl_out"
  by (simp add: sendOutPokemon_def st_promoted_def hasAnyPokemonOut_def isPokemonOut_def
      ctrl_out_def run_defs)

lemma reachable_st_spawned: "reachable st_spawned"
  using r_spawn[OF r_init run_spawn] by (simp add: st_spawned_def)

lemma reachable_st_thrown: "reachable st_thrown"
  using r_throw[OF reachable_st_spawned, of "Vec3 0 0 (- 1)" "Vec3 0 0 1" 5]
  by (simp add: run_throw)

lemma reachable_st_hit: "reachable (st_locked 0 0 capturing)"
  using r_increment[OF reachable_st_thrown run_hit] .

lemma reachable_st_caught: "reachable (st_locked (18 / 10) 3 caught)"
  using r_increment[OF r_increment[OF r_increment[OF reachable_st_hit run_shake1] run_shake2] run_shake3] .

lemma reachable_st_promoted: "reachable st_promoted"
  using r_physics[OF reachable_st_caught run_promote] .

lemma reachable_st_out: "reachable st_out"
  using r_sendOut[OF reachable_st_promoted, of 0 "Vec3 3 0 0"]
  by (simp add: run_sendOut st_out_def)

section \<open>Claims about the inventory, the capture state machine and locked capsules\<close>

text \<open>
  Claim C3.  In every reachable state the side table of active slots has at most one
  entry, and sending out, recalling and promoting keep it so.  \<^const>\<open>sendOutPokemon\<close>
  returns false and changes nothing when the slot index is out of range, when some slot is
  active, or when the requested slot is active.  After a successful recall, sending out
  any valid slot succeeds and makes it the one active slot.
\<close>

theorem single_active_slot:
  assumes "reachable a" and "c = pokemonController_a a"
  shows "length (outPokemonIndices_c c) \<le> 1
    \<and> length (outPokemonIndices_c (snd (sendOutPokemon c i ps))) \<le> 1
    \<and> length (outPokemonIndices_c (snd (recallPokemon c i))) \<le> 1
    \<and> outPokemonIndices_c (updateInventory c) = outPokemonIndices_c c
    \<and> (i \<ge> length (inventory_c c) \<or> hasAnyPokemonOut c \<or> isPokemonOut c i
         \<longrightarrow> sendOutPokemon c i ps = (False, c))
    \<and> (fst (recallPokemon c i) \<and> j < length (inventory_c c)
         \<longrightarrow> fst (sendOutPokemon (snd (recallPokemon c i)) j ps)
             \<and> outPokemonIndices_c (snd (sendOutPokemon (snd (recallPokemon c i)) j ps)) = [j])"
proof -
  have ok: "app_ok a" using reachable_ok[OF assms(1)] .
  then have one: "length (outPokemonIndices_c c) \<le> 1" using assms(2) by (simp add: app_ok_def)
  have s: "length (outPokemonIndices_c (snd (sendOutPokemon c i ps))) \<le> 1"
    using sendOutPokemon_ok[OF ok, of i ps] assms(2) by (simp add: app_ok_def)
  have r: "length (outPokemonIndices_c (snd (recallPokemon c i))) \<le> 1"
    using recallPokemon_ok[OF ok, of i] assms(2) by (simp add: app_ok_def)
  have u: "outPokemonIndices_c (updateInventory c) = outPokemonIndices_c c"
    by (simp add: updateInventory_def split_beta)
  have f: "i \<ge> length (inventory_c c) \<or> hasAnyPokemonOut c \<or> isPokemonOut c i
         \<longrightarrow> sendOutPokemon c i ps = (False, c)"
    by (auto simp: sendOutPokemon_def)
  have g: "fst (sendOutPokemon (snd (recallPokemon c i)) j ps)
           \<and> outPokemonIndices_c (snd (sendOutPokemon (snd (recallPokemon c i)) j ps)) = [j]"
    if rc: "fst (recallPokemon c i)" and j: "j < length (inventory_c c)"
  proof -
    from rc obtain qs where
      m: "i \<in> set (outPokemonIndices_c c)" and
      e: "snd (recallPokemon c i)
          = c\<lparr> pokemon_c := qs, outPokemonIndices_c := remove1 i (outPokemonIndices_c c) \<rparr>"
      by (auto simp: recallPokemon_def Let_def split: option.splits if_splits)
    from m one have "outPokemonIndices_c c = [i]"
      by (cases "outPokemonIndices_c c") auto
    then have "snd (recallPokemon c i) = c\<lparr> pokemon_c := qs, outPokemonIndices_c := [] \<rparr>"
      using e by simp
    then show ?thesis using j
      by (simp add: sendOutPokemon_def hasAnyPokemonOut_def isPokemonOut_def Let_def)
  qed
  show ?thesis using one s r u f g by blast
qed

theorem single_active_slot_witness:
  "reachable st_out
   \<and> outPokemonIndices_c (pokemonController_a st_out) = [0]
   \<and> sendOutPokemon ctrl_out 0 (Vec3 1 0 1) = (False, ctrl_out)
   \<and> fst (recallPokemon ctrl_out 0)
   \<and> fst (sendOutPokemon (snd (recallPokemon ctrl_out 0)) 0 (Vec3 1 0 1))
   \<and> outPokemonIndices_c (snd (sendOutPokemon (snd (recallPokemon ctrl_out 0)) 0 (Vec3 1 0 1))) = [0]"
proof -
  have c: "ctrl_out = pokemonController_a st_out" by (simp add: st_out_def)
  have r: "fst (recallPokemon ctrl_out 0)"
    by (simp add: recallPokemon_def ctrl_out_def isOwnedPokemon_def isOwned_def caught_def)
  have h: "hasAnyPokemonOut ctrl_out" by (simp add: hasAnyPokemonOut_def ctrl_out_def)
  have l: "(0::nat) < length (inventory_c ctrl_out)" by (simp add: ctrl_out_def)
  show ?thesis
    using single_active_slot [OF reachable_st_out c, of 0 "Vec3 1 0 1" 0] r h l reachable_st_out
    by (simp add: st_out_def ctrl_out_def)
qed

text \<open>
  Claim C10.  In every reachable state each creature of the roster that is in the
  Capturing state is invisible.  The hit that starts a capture attempt puts the creature
  into Capturing and hides it in the same step, locks the capsule, zeroes its velocity
  and snaps it to the creature's position raised by the creature's radius; an update of a
  Capturing creature only advances its capture timer.
\<close>

theorem hidden_while_capturing:
  assumes "reachable a"
  shows "(\<forall>q \<in> set (pokemon_c (pokemonController_a a)). state_p q = Capturing \<longrightarrow> \<not> visible_p q)
    \<and> (captureHit p ball g = (p', ball', g') \<longrightarrow>
          state_p p' = Capturing \<and> \<not> visible_p p' \<and> position_p p' = position_p p
          \<and> locked ball' \<and> velocity ball' = Vec3 0 0 0
          \<and> position ball' = vadd (position_p p) (Vec3 0 (radius_p p) 0))
    \<and> (hitBalls p bs g = (pa, bsa, ga) \<longrightarrow>
          pa = p \<or> (state_p pa = Capturing \<and> \<not> visible_p pa))
    \<and> (state_p p = Capturing \<longrightarrow>
          Pokemon_update p dt world obstacles g
          = Some (p\<lparr> captureTimer_p := captureTimer_p p + dt \<rparr>, g))"
proof -
  have "app_ok a" using reachable_ok[OF assms] .
  then have 1: "\<forall>q \<in> set (pokemon_c (pokemonController_a a)). state_p q = Capturing \<longrightarrow> \<not> visible_p q"
    by (simp add: app_ok_def list_all_iff creature_ok_def)
  have 2: "captureHit p ball g = (p', ball', g') \<longrightarrow>
          state_p p' = Capturing \<and> \<not> visible_p p' \<and> position_p p' = position_p p
          \<and> locked ball' \<and> velocity ball' = Vec3 0 0 0
          \<and> position ball' = vadd (position_p p) (Vec3 0 (radius_p p) 0)"
    using captureHit_ball[of p ball g p' ball' g'] captureHit_creature[of p ball g p' ball' g']
    by blast
  have 3: "hitBalls p bs g = (pa, bsa, ga) \<longrightarrow>
          pa = p \<or> (state_p pa = Capturing \<and> \<not> visible_p pa)"
    using hitBalls_creature[of p bs g pa bsa ga] by blast
  have 4: "state_p p = Capturing \<longrightarrow>
          Pokemon_update p dt world obstacles g
          = Some (p\<lparr> captureTimer_p := captureTimer_p p + dt \<rparr>, g)"
    by (simp add: Pokemon_update_def)
  show ?thesis using 1 2 3 4 by blast
qed

theorem hidden_while_capturing_witness:
  "reachable st_thrown
   \<and> updatePokeballs (6 / 10) st_thrown = Some (st_locked 0 0 capturing)
   \<and> pokemon_c (pokemonController_a (st_locked 0 0 capturing)) = [capturing]
   \<and> state_p capturing = Capturing \<and> \<not> visible_p capturing
   \<and> captureHit wild flying zeros
      = (capturing, flying\<lparr> active := False, locked := True, position := Vec3 0 (1 / 2) 0,
                            velocity := Vec3 0 0 0, targetPokemonId := 1,
                            captureSuccess := True \<rparr>, (\<lambda>n. 0, 1))
   \<and> hitBalls wild [flying] zeros
      = (capturing, [flying\<lparr> active := False, locked := True, position := Vec3 0 (1 / 2) 0,
                            velocity := Vec3 0 0 0, targetPokemonId := 1,
                            captureSuccess := True \<rparr>], (\<lambda>n. 0, 1))
   \<and> Pokemon_update capturing (1 / 60) None [] zeros
      = Some (capturing\<lparr> captureTimer_p := 1 / 60 \<rparr>, zeros)"
proof -
  have h: "captureHit wild flying zeros
      = (capturing, flying\<lparr> active := False, locked := True, position := Vec3 0 (1 / 2) 0,
                            velocity := Vec3 0 0 0, targetPokemonId := 1,
                            captureSuccess := True \<rparr>, (\<lambda>n. 0, 1))"
    by (simp add: captureHit_def wild_def flying_def zeros_def capturing_def startCapture_def
        Let_def getCatchRate_def sure_species_def randomFloat_def vadd_def Pokeball_new_def)
  have hb: "hitBalls wild [flying] zeros
      = (capturing, [flying\<lparr> active := False, locked := True, position := Vec3 0 (1 / 2) 0,
                            velocity := Vec3 0 0 0, targetPokemonId := 1,
                            captureSuccess := True \<rparr>], (\<lambda>n. 0, 1))"
    using h by (simp add: collide_def length2_def vsub_def dot_def flying_def wild_def
        Pokeball_new_def)
  have s: "state_p capturing = Capturing" by (simp add: capturing_def)
  show ?thesis
    using hidden_while_capturing [OF reachable_st_hit, where p = capturing and dt = "1 / 60"
        and world = None and obstacles = "[]" and g = zeros and ball = flying
        and p' = capturing and ball' = flying and g' = zeros and bs = "[]" and pa = capturing
        and bsa = "[]" and ga = zeros]
      reachable_st_thrown run_hit h hb s
    by (simp add: st_locked_def capturing_def wild_def)
qed


lemma shakeBall_position:
  "position (fst (shakeBall dt b ps))
   = (let b' = fst (shakeBall dt b ps)
      in if shakeCount b' < MAX_SHAKES
         then Vec3 (vx (captureBasePos b') + 0.12 * sin (shakePhase b' * 6.28318))
                   (vy (captureBasePos b')) (vz (captureBasePos b'))
         else position b)"
  by (simp add: shakeBall_def Let_def split_beta)

lemma shakeBall_base:
  "captureBasePos (fst (shakeBall dt b ps))
   = (if lockTimer b + dt \<le> dt then position b else captureBasePos b)"
  by (simp add: shakeBall_def Let_def split_beta)

lemma updatePokeballs_balls:
  assumes "updatePokeballs dt a = Some a'"
  shows "\<exists>bs. length bs = length (balls_a a)
      \<and> balls_a a' = filter (\<lambda>p. \<not> expired p) bs
      \<and> (\<forall>k < length bs. locked (balls_a a ! k) \<longrightarrow>
            bs ! k = fst (shakeBall dt (balls_a a ! k) []))"
proof -
  let ?step = "glm_min dt (1 / 60)"
  let ?c = "pokemonController_a a"
  from assms(1) obtain bs ps where
    l: "ballLoop a dt ?step (balls_a a) (pokemon_c ?c) = Some (bs, ps)"
    by (auto simp: updatePokeballs_def Let_def split: option.splits)
  obtain ps2 bs2 g2 where
    c: "captureLoop (inventory_c ?c) (outPokemonIndices_c ?c) ps bs (rand_a a) = (ps2, bs2, g2)"
    by (cases "captureLoop (inventory_c ?c) (outPokemonIndices_c ?c) ps bs (rand_a a)") auto
  have a': "balls_a a' = filter (\<lambda>p. \<not> expired p) bs2"
    using assms(1) l c by (auto simp add: updatePokeballs_def Let_def handlePokeballCapture_def)
  have l1: "length bs = length (balls_a a)" using ballLoop_length[OF l] .
  have l2: "length bs2 = length bs" using captureLoop_length[OF c] .
  have "bs2 ! k = fst (shakeBall dt (balls_a a ! k) [])"
    if k: "k < length bs2" and lk: "locked (balls_a a ! k)" for k
  proof -
    have k': "k < length (balls_a a)" using k l1 l2 by simp
    have e1: "bs ! k = fst (shakeBall dt (balls_a a ! k) [])"
      using ballLoop_locked_nth[OF l k' lk] .
    then have "locked (bs ! k)" using lk by (simp add: shakeBall_flags)
    then have "bs2 ! k = bs ! k" using captureLoop_locked_nth[OF c] k l2 by simp
    then show ?thesis using e1 by simp
  qed
  then show ?thesis using a' l1 l2 by auto
qed

text \<open>
  Claim C1.  In every reachable state a locked capsule is not active (and has no
  velocity).  One physics increment maps every locked capsule, before the expired ones
  are removed, to the result of the shake branch: it is still locked, its active flag,
  velocity and time to live are unchanged (no gravity, no integration), and its position
  is the base position displaced along x by \<open>0.12 * sin (shakePhase * 6.28318)\<close> while
  fewer than \<^const>\<open>MAX_SHAKES\<close> shakes are complete, and unchanged afterwards.
\<close>

theorem locked_capsule_only_shakes:
  assumes "reachable a" and "updatePokeballs dt a = Some a'"
  shows "(\<forall>b \<in> set (balls_a a). locked b \<longrightarrow> \<not> active b \<and> velocity b = Vec3 0 0 0)
    \<and> (\<forall>b \<in> set (balls_a a'). locked b \<longrightarrow> \<not> active b \<and> velocity b = Vec3 0 0 0)
    \<and> (\<exists>bs. length bs = length (balls_a a)
          \<and> balls_a a' = filter (\<lambda>p. \<not> expired p) bs
          \<and> (\<forall>k < length bs. locked (balls_a a ! k) \<longrightarrow>
                bs ! k = fst (shakeBall dt (balls_a a ! k) [])))
    \<and> (locked b \<longrightarrow>
          updateBall a dt step b ps = Some (shakeBall dt b ps)
          \<and> locked (fst (shakeBall dt b ps))
          \<and> active (fst (shakeBall dt b ps)) = active b
          \<and> velocity (fst (shakeBall dt b ps)) = velocity b
          \<and> life (fst (shakeBall dt b ps)) = life b
          \<and> captureBasePos (fst (shakeBall dt b ps))
              = (if lockTimer b + dt \<le> dt then position b else captureBasePos b)
          \<and> position (fst (shakeBall dt b ps))
              = (if shakeCount (fst (shakeBall dt b ps)) < MAX_SHAKES
                 then Vec3 (vx (captureBasePos (fst (shakeBall dt b ps)))
                              + 0.12 * sin (shakePhase (fst (shakeBall dt b ps)) * 6.28318))
                           (vy (captureBasePos (fst (shakeBall dt b ps))))
                           (vz (captureBasePos (fst (shakeBall dt b ps))))
                 else position b))"
proof -
  have ok: "app_ok a" using reachable_ok[OF assms(1)] .
  have ok': "app_ok a'" using updatePokeballs_ok[OF assms(2) ok] .
  have 1: "\<forall>b \<in> set (balls_a a). locked b \<longrightarrow> \<not> active b \<and> velocity b = Vec3 0 0 0"
    using ok by (simp add: app_ok_def list_all_iff ball_ok_def)
  have 2: "\<forall>b \<in> set (balls_a a'). locked b \<longrightarrow> \<not> active b \<and> velocity b = Vec3 0 0 0"
    using ok' by (simp add: app_ok_def list_all_iff ball_ok_def)
  have 4: "locked b \<longrightarrow>
          updateBall a dt step b ps = Some (shakeBall dt b ps)
          \<and> locked (fst (shakeBall dt b ps))
          \<and> active (fst (shakeBall dt b ps)) = active b
          \<and> velocity (fst (shakeBall dt b ps)) = velocity b
          \<and> life (fst (shakeBall dt b ps)) = life b
          \<and> captureBasePos (fst (shakeBall dt b ps))
              = (if lockTimer b + dt \<le> dt then position b else captureBasePos b)
          \<and> position (fst (shakeBall dt b ps))
              = (if shakeCount (fst (shakeBall dt b ps)) < MAX_SHAKES
                 then Vec3 (vx (captureBasePos (fst (shakeBall dt b ps)))
                              + 0.12 * sin (shakePhase (fst (shakeBall dt b ps)) * 6.28318))
                           (vy (captureBasePos (fst (shakeBall dt b ps))))
                           (vz (captureBasePos (fst (shakeBall dt b ps))))
                 else position b)"
    using shakeBall_position[of dt b ps] shakeBall_base[of dt b ps]
    by (simp add: updateBall_of_locked shakeBall_flags Let_def)
  show ?thesis using 1 2 updatePokeballs_balls[OF assms(2)] 4 by blast
qed

theorem locked_capsule_only_shakes_witness:
  "reachable (st_locked 0 0 capturing)
   \<and> updatePokeballs (1 / 120) (st_locked 0 0 capturing)
      = Some ((st_locked 0 0 capturing)
               \<lparr> balls_a := [(shaking 0 0)\<lparr> lockTimer := 1 / 120, shakePhase := 1 / 72,
                               captureBasePos := Vec3 0 (1 / 2) 0,
                               position := Vec3 (0.12 * sin (1 / 72 * 6.28318)) (1 / 2) 0 \<rparr>] \<rparr>)
   \<and> locked (shaking 0 0) \<and> \<not> active (shaking 0 0) \<and> velocity (shaking 0 0) = Vec3 0 0 0
   \<and> fst (shakeBall (1 / 120) (shaking 0 0) [capturing])
      = (shaking 0 0)\<lparr> lockTimer := 1 / 120, shakePhase := 1 / 72,
                        captureBasePos := Vec3 0 (1 / 2) 0,
                        position := Vec3 (0.12 * sin (1 / 72 * 6.28318)) (1 / 2) 0 \<rparr>"
proof -
  have u: "updatePokeballs (1 / 120) (st_locked 0 0 capturing)
      = Some ((st_locked 0 0 capturing)
               \<lparr> balls_a := [(shaking 0 0)\<lparr> lockTimer := 1 / 120, shakePhase := 1 / 72,
                               captureBasePos := Vec3 0 (1 / 2) 0,
                               position := Vec3 (0.12 * sin (1 / 72 * 6.28318)) (1 / 2) 0 \<rparr>] \<rparr>)"
    by (simp add: run_defs)
  have s: "fst (shakeBall (1 / 120) (shaking 0 0) [capturing])
      = (shaking 0 0)\<lparr> lockTimer := 1 / 120, shakePhase := 1 / 72,
                        captureBasePos := Vec3 0 (1 / 2) 0,
                        position := Vec3 (0.12 * sin (1 / 72 * 6.28318)) (1 / 2) 0 \<rparr>"
    by (simp add: run_defs)
  show ?thesis
    using locked_capsule_only_shakes [OF reachable_st_hit u, where b = "shaking 0 0"
        and ps = "[capturing]" and step = "1 / 120"]
      reachable_st_hit u s
    by (simp add: shaking_def)
qed

section \<open>The capture outcome\<close>





lemma finalizeCapture_reveals:
  "list_all2 (\<lambda>p p'. p' = p \<or> (isCapturing p
       \<and> p' = (if captureSuccess b then markCaptured p else markCaptureFailed p)))
     ps (finalizeCapture b ps)"
  by (induction ps) (auto simp: list_all2_same list.rel_refl)





section \<open>A failed capture\<close>

text \<open>
  Claim C4, as the spec states it, fails: the update that leaves CaptureFailed ends in the
  Idle state, not in Walking.  Here a creature with capture probability 0 is hit with the
  sample 1/2, the stored outcome is failure, the third shake marks it CaptureFailed, and
  its next update leaves it Idle.
\<close>

theorem failed_capture_ends_Idle:
  "captureSuccess (fst (snd (captureHit (wild\<lparr> species_p := Some shy_species \<rparr>) flying half_then_zeros))) = False
   \<and> snd (shakeBall (1 / 120) last_shake [shy]) = [markCaptureFailed shy]
   \<and> Pokemon_update (markCaptureFailed shy) (1 / 60) None [] (fst half_then_zeros, 1)
      = Some (shy\<lparr> wanderDir_p := Vec3 1 0 0, velocity_p := Vec3 2 0 0,
                     timeUntilDirectionChange_p := 1, visible_p := True, state_p := Idle \<rparr>,
              (fst half_then_zeros, 3))
   \<and> state_p (shy\<lparr> wanderDir_p := Vec3 1 0 0, velocity_p := Vec3 2 0 0,
                     timeUntilDirectionChange_p := 1, visible_p := True, state_p := Idle \<rparr>)
      \<noteq> Walking"
  by (simp add: captureHit_def Let_def randomFloat_def getCatchRate_def startCapture_def
      wild_def shy_species_def half_then_zeros_def shy_def capturing_def last_shake_def
      shaking_def shakeBall_def SHAKE_DURATION_def MAX_SHAKES_def isCapturing_def vlength_def
      vsub_def dot_def markCaptureFailed_def Pokemon_update_def pickNewWanderDirection_def
      normalize_def sdiv_def smul_def numeral_3_eq_3)

text \<open>
  Claim C4, amended.  A hit on a creature with capture probability 0 stores a failure
  whenever the sample is greater than 0.  When the shake that completes the count ends,
  the capsule resolves the roster with \<^const>\<open>finalizeCapture\<close>; with a failure stored, the
  creature it resolves becomes CaptureFailed and is visible at once.  The next update of a
  CaptureFailed creature makes it visible, draws a fresh wander heading and velocity from
  two random samples, and leaves it in the Idle state.  No update returns a creature in
  the CaptureFailed state, so that state never survives an update.
\<close>

theorem failed_capture_one_update:
  "(getCatchRate p = 0 \<and> 0 < fst g (snd g) \<longrightarrow>
      \<not> captureSuccess (fst (snd (captureHit p ball g))))
   \<and> (shakePhase b + dt / SHAKE_DURATION \<ge> 1 \<and> shakeCount b + 1 \<ge> MAX_SHAKES \<longrightarrow>
        snd (shakeBall dt b ps) = finalizeCapture (fst (shakeBall dt b ps)) ps)
   \<and> (\<not> captureSuccess b \<longrightarrow>
        list_all2 (\<lambda>q q'. q' = q \<or> (isCapturing q \<and> q' = markCaptureFailed q))
          ps (finalizeCapture b ps))
   \<and> (\<not> captureSuccess b \<and> isCapturing q
        \<and> vlength (vsub (position_p q) (captureBasePos b)) < 1 \<longrightarrow>
        finalizeCapture b (q # qs) = markCaptureFailed q # qs)
   \<and> state_p (markCaptureFailed q) = CaptureFailed \<and> visible_p (markCaptureFailed q)
   \<and> (state_p p = CaptureFailed \<longrightarrow>
        Pokemon_update p dt world obstacles g
        = Some ((fst (pickNewWanderDirection p g))\<lparr> visible_p := True, state_p := Idle \<rparr>,
                (fst g, Suc (Suc (snd g))))
        \<and> wanderDir_p (fst (pickNewWanderDirection p g))
          = normalize (Vec3 (cos (fst g (snd g) * 6.2831853)) 0 (sin (fst g (snd g) * 6.2831853)))
        \<and> velocity_p (fst (pickNewWanderDirection p g))
          = smul (wanderDir_p (fst (pickNewWanderDirection p g))) (speed_p p))
   \<and> (Pokemon_update p dt world obstacles g = Some (pa, ga) \<longrightarrow> state_p pa \<noteq> CaptureFailed)"
proof -
  have 1: "getCatchRate p = 0 \<and> 0 < fst g (snd g) \<longrightarrow>
      \<not> captureSuccess (fst (snd (captureHit p ball g)))"
    by (simp add: captureHit_def Let_def randomFloat_def getCatchRate_def startCapture_def)
  have 2: "shakePhase b + dt / SHAKE_DURATION \<ge> 1 \<and> shakeCount b + 1 \<ge> MAX_SHAKES \<longrightarrow>
        snd (shakeBall dt b ps) = finalizeCapture (fst (shakeBall dt b ps)) ps"
    by (simp add: shakeBall_def Let_def)
  have 3: "\<not> captureSuccess b \<longrightarrow>
        list_all2 (\<lambda>q q'. q' = q \<or> (isCapturing q \<and> q' = markCaptureFailed q))
          ps (finalizeCapture b ps)"
    using finalizeCapture_reveals[of b ps] by auto
  have 4: "\<not> captureSuccess b \<and> isCapturing q
        \<and> vlength (vsub (position_p q) (captureBasePos b)) < 1 \<longrightarrow>
        finalizeCapture b (q # qs) = markCaptureFailed q # qs"
    by simp
  have 5: "state_p (markCaptureFailed q) = CaptureFailed \<and> visible_p (markCaptureFailed q)"
    by (simp add: markCaptureFailed_def)
  have 6: "state_p p = CaptureFailed \<longrightarrow>
        Pokemon_update p dt world obstacles g
        = Some ((fst (pickNewWanderDirection p g))\<lparr> visible_p := True, state_p := Idle \<rparr>,
                (fst g, Suc (Suc (snd g))))
        \<and> wanderDir_p (fst (pickNewWanderDirection p g))
          = normalize (Vec3 (cos (fst g (snd g) * 6.2831853)) 0 (sin (fst g (snd g) * 6.2831853)))
        \<and> velocity_p (fst (pickNewWanderDirection p g))
          = smul (wanderDir_p (fst (pickNewWanderDirection p g))) (speed_p p)"
    by (simp add: Pokemon_update_def split_beta pickNewWanderDirection_fields)
       (simp add: pickNewWanderDirection_def randomFloat_def Let_def)
  have 7: "Pokemon_update p dt world obstacles g = Some (pa, ga) \<longrightarrow> state_p pa \<noteq> CaptureFailed"
    using Pokemon_update_state(1)[of p dt world obstacles g pa ga] by blast
  show ?thesis using 1 2 3 4 5 6 7 by blast
qed

theorem failed_capture_one_update_witness:
  "getCatchRate (wild\<lparr> species_p := Some shy_species \<rparr>) = 0
   \<and> 0 < fst half_then_zeros (snd half_then_zeros)
   \<and> \<not> captureSuccess (fst (snd (captureHit (wild\<lparr> species_p := Some shy_species \<rparr>) flying half_then_zeros)))
   \<and> shakePhase last_shake + (1 / 120) / SHAKE_DURATION \<ge> 1
   \<and> shakeCount last_shake + 1 \<ge> MAX_SHAKES
   \<and> \<not> captureSuccess last_shake \<and> isCapturing shy
   \<and> snd (shakeBall (1 / 120) last_shake [shy]) = [markCaptureFailed shy]
   \<and> state_p (markCaptureFailed shy) = CaptureFailed
   \<and> Pokemon_update (markCaptureFailed shy) (1 / 60) None [] (fst half_then_zeros, 1)
      = Some (shy\<lparr> wanderDir_p := Vec3 1 0 0, velocity_p := Vec3 2 0 0,
                     timeUntilDirectionChange_p := 1, visible_p := True, state_p := Idle \<rparr>,
              (fst half_then_zeros, 3))"
proof -
  have e: "Pokemon_update (markCaptureFailed shy) (1 / 60) None [] (fst half_then_zeros, 1)
      = Some (shy\<lparr> wanderDir_p := Vec3 1 0 0, velocity_p := Vec3 2 0 0,
                     timeUntilDirectionChange_p := 1, visible_p := True, state_p := Idle \<rparr>,
              (fst half_then_zeros, 3))"
    by (simp add: half_then_zeros_def shy_def capturing_def wild_def markCaptureFailed_def
        Pokemon_update_def pickNewWanderDirection_def randomFloat_def Let_def
        normalize_def sdiv_def smul_def dot_def numeral_3_eq_3)
  have s: "snd (shakeBall (1 / 120) last_shake [shy]) = [markCaptureFailed shy]"
    by (simp add: shy_def capturing_def wild_def last_shake_def shaking_def shakeBall_def
        SHAKE_DURATION_def MAX_SHAKES_def isCapturing_def vlength_def vsub_def dot_def Let_def)
  show ?thesis
    using failed_capture_one_update [where p = "wild\<lparr> species_p := Some shy_species \<rparr>"
        and g = half_then_zeros and ball = flying and b = last_shake and dt = "1 / 120"
        and ps = "[shy]" and q = shy and qs = "[]"]
      failed_capture_one_update [where p = "markCaptureFailed shy"
        and g = "(fst half_then_zeros, 1)" and dt = "1 / 60" and world = None
        and obstacles = "[]"] e s
    by (simp add: getCatchRate_def wild_def shy_species_def half_then_zeros_def last_shake_def
        shaking_def SHAKE_DURATION_def MAX_SHAKES_def shy_def capturing_def isCapturing_def
        markCaptureFailed_def)
qed

section \<open>The frame and its physics increments\<close>






section \<open>A capsule resting on the terrain\<close>











end
